theory Spec2Isabelle
  imports Main
begin

section \<open>The evdev adapter: translating input events to HID usages\<close>

text \<open>
  This theory embeds \<^verbatim>\<open>src/bluetooth_2_usb/evdev_adapter.py\<close>: the mapping table from
  evdev scan codes to HID usage ids, the two classification sets, the classifier
  \<^verbatim>\<open>get_hid_code_type\<close>, the translator \<^verbatim>\<open>evdev_to_hid\<close>, the two name resolvers with
  their memoization caches, and the motion decoder \<^verbatim>\<open>get_mouse_movement\<close>.
  Names are those of the source; the leading underscore of a private Python name is
  dropped, since an Isabelle name cannot start with one.
\<close>

subsection \<open>Python values and namespaces\<close>

text \<open>
  The adapter reads four namespaces that other modules define: \<^verbatim>\<open>ecodes\<close> (the scan
  codes) and the classes \<^verbatim>\<open>Keycode\<close>, \<^verbatim>\<open>ConsumerControlCode\<close> and \<^verbatim>\<open>MouseButton\<close> (the
  usage ids). Their contents are parameters here: an environment gives every namespace
  its content, and every definition below takes the environment.

  A value found by reflection is compared with \<^verbatim>\<open>==\<close> against an integer or against
  \<^verbatim>\<open>None\<close> only. \<open>PInt i\<close> is a value that compares equal to the integer \<open>i\<close>,
  \<open>PNone\<close> is \<^verbatim>\<open>None\<close>, and \<open>PObj\<close> is any other object (a string, a function, a
  dictionary): it equals neither an integer nor \<^verbatim>\<open>None\<close>.
\<close>

datatype pyval = PInt int | PNone | PObj

text \<open>The objects handed to \<^verbatim>\<open>dir\<close> and \<^verbatim>\<open>getattr\<close>.\<close>

datatype class_type = Ecodes | Keycode | ConsumerControlCode | MouseButton

text \<open>
  A namespace has three readings. \<open>attr ns n\<close> is the integer constant \<^verbatim>\<open>ns.n\<close> that
  the module reads when it builds its tables; \<open>py_dir ns\<close> is \<^verbatim>\<open>dir(ns)\<close>, in the order
  Python returns it; \<open>py_getattr ns n\<close> is \<^verbatim>\<open>getattr(ns, n, None)\<close>, which is
  \<^verbatim>\<open>None\<close> for a missing attribute.
\<close>

record namespace =
  attr :: "string \<Rightarrow> int"
  py_dir :: "string list"
  py_getattr :: "string \<Rightarrow> pyval"

type_synonym env = "class_type \<Rightarrow> namespace"

text \<open>Python's \<^verbatim>\<open>==\<close> between a reflected value and an \<^verbatim>\<open>int | None\<close>.\<close>

fun py_eq :: "pyval \<Rightarrow> int option \<Rightarrow> bool" where
  "py_eq (PInt i) (Some j) = (i = j)"
| "py_eq PNone None = True"
| "py_eq _ _ = False"

text \<open>\<^verbatim>\<open>str.startswith\<close> with a tuple of prefixes.\<close>

definition startswith :: "string \<Rightarrow> string list \<Rightarrow> bool" where
  "startswith s prefixes = list_ex (\<lambda>p. take (length p) s = p) prefixes"

subsection \<open>Events\<close>

text \<open>
  A key event carries its scan code and its direction (\<^verbatim>\<open>keystate\<close>: 0 release,
  1 press, 2 repeat). A relative-axis event wraps an input event with an axis code and
  a signed value.
\<close>

record KeyEvent =
  scancode :: int
  keystate :: int

record InputEvent =
  code :: int
  ev_value :: int

record RelEvent =
  event :: InputEvent

subsection \<open>The tables\<close>

text \<open>
  The dictionary literal \<^verbatim>\<open>_EVDEV_TO_HID\<close>, entry by entry in source order. The entry
  \<^verbatim>\<open>ecodes.KEY_A: Keycode.A\<close> is the triple \<open>(''KEY_A'', Keycode, ''A'')\<close>: the name of
  the scan code, the class of the usage id, and the name of the usage id. The literal is
  cut in three where the source's comment lines cut it.
\<close>

text \<open>The first section: the keyboard keys.\<close>

definition keyboard_items :: "(string \<times> class_type \<times> string) list" where
  "keyboard_items =
    [(''KEY_A'', Keycode, ''A''),
     (''KEY_B'', Keycode, ''B''),
     (''KEY_C'', Keycode, ''C''),
     (''KEY_D'', Keycode, ''D''),
     (''KEY_E'', Keycode, ''E''),
     (''KEY_F'', Keycode, ''F''),
     (''KEY_G'', Keycode, ''G''),
     (''KEY_H'', Keycode, ''H''),
     (''KEY_I'', Keycode, ''I''),
     (''KEY_J'', Keycode, ''J''),
     (''KEY_K'', Keycode, ''K''),
     (''KEY_L'', Keycode, ''L''),
     (''KEY_M'', Keycode, ''M''),
     (''KEY_N'', Keycode, ''N''),
     (''KEY_O'', Keycode, ''O''),
     (''KEY_P'', Keycode, ''P''),
     (''KEY_Q'', Keycode, ''Q''),
     (''KEY_R'', Keycode, ''R''),
     (''KEY_S'', Keycode, ''S''),
     (''KEY_T'', Keycode, ''T''),
     (''KEY_U'', Keycode, ''U''),
     (''KEY_V'', Keycode, ''V''),
     (''KEY_W'', Keycode, ''W''),
     (''KEY_X'', Keycode, ''X''),
     (''KEY_Y'', Keycode, ''Y''),
     (''KEY_Z'', Keycode, ''Z''),
     (''KEY_1'', Keycode, ''ONE''),
     (''KEY_2'', Keycode, ''TWO''),
     (''KEY_3'', Keycode, ''THREE''),
     (''KEY_4'', Keycode, ''FOUR''),
     (''KEY_5'', Keycode, ''FIVE''),
     (''KEY_6'', Keycode, ''SIX''),
     (''KEY_7'', Keycode, ''SEVEN''),
     (''KEY_8'', Keycode, ''EIGHT''),
     (''KEY_9'', Keycode, ''NINE''),
     (''KEY_0'', Keycode, ''ZERO''),
     (''KEY_ENTER'', Keycode, ''ENTER''),
     (''KEY_ESC'', Keycode, ''ESCAPE''),
     (''KEY_BACKSPACE'', Keycode, ''BACKSPACE''),
     (''KEY_TAB'', Keycode, ''TAB''),
     (''KEY_SPACE'', Keycode, ''SPACEBAR''),
     (''KEY_MINUS'', Keycode, ''MINUS''),
     (''KEY_EQUAL'', Keycode, ''EQUALS''),
     (''KEY_LEFTBRACE'', Keycode, ''LEFT_BRACKET''),
     (''KEY_RIGHTBRACE'', Keycode, ''RIGHT_BRACKET''),
     (''KEY_BACKSLASH'', Keycode, ''POUND''),
     (''KEY_SEMICOLON'', Keycode, ''SEMICOLON''),
     (''KEY_APOSTROPHE'', Keycode, ''QUOTE''),
     (''KEY_GRAVE'', Keycode, ''GRAVE_ACCENT''),
     (''KEY_COMMA'', Keycode, ''COMMA''),
     (''KEY_DOT'', Keycode, ''PERIOD''),
     (''KEY_SLASH'', Keycode, ''FORWARD_SLASH''),
     (''KEY_CAPSLOCK'', Keycode, ''CAPS_LOCK''),
     (''KEY_F1'', Keycode, ''F1''),
     (''KEY_F2'', Keycode, ''F2''),
     (''KEY_F3'', Keycode, ''F3''),
     (''KEY_F4'', Keycode, ''F4''),
     (''KEY_F5'', Keycode, ''F5''),
     (''KEY_F6'', Keycode, ''F6''),
     (''KEY_F7'', Keycode, ''F7''),
     (''KEY_F8'', Keycode, ''F8''),
     (''KEY_F9'', Keycode, ''F9''),
     (''KEY_F10'', Keycode, ''F10''),
     (''KEY_F11'', Keycode, ''F11''),
     (''KEY_F12'', Keycode, ''F12''),
     (''KEY_SYSRQ'', Keycode, ''PRINT_SCREEN''),
     (''KEY_SCROLLLOCK'', Keycode, ''SCROLL_LOCK''),
     (''KEY_PAUSE'', Keycode, ''PAUSE''),
     (''KEY_INSERT'', Keycode, ''INSERT''),
     (''KEY_HOME'', Keycode, ''HOME''),
     (''KEY_PAGEUP'', Keycode, ''PAGE_UP''),
     (''KEY_DELETE'', Keycode, ''DELETE''),
     (''KEY_END'', Keycode, ''END''),
     (''KEY_PAGEDOWN'', Keycode, ''PAGE_DOWN''),
     (''KEY_RIGHT'', Keycode, ''RIGHT_ARROW''),
     (''KEY_LEFT'', Keycode, ''LEFT_ARROW''),
     (''KEY_DOWN'', Keycode, ''DOWN_ARROW''),
     (''KEY_UP'', Keycode, ''UP_ARROW''),
     (''KEY_NUMLOCK'', Keycode, ''KEYPAD_NUMLOCK''),
     (''KEY_KPSLASH'', Keycode, ''KEYPAD_FORWARD_SLASH''),
     (''KEY_KPASTERISK'', Keycode, ''KEYPAD_ASTERISK''),
     (''KEY_KPMINUS'', Keycode, ''KEYPAD_MINUS''),
     (''KEY_KPPLUS'', Keycode, ''KEYPAD_PLUS''),
     (''KEY_KPENTER'', Keycode, ''KEYPAD_ENTER''),
     (''KEY_KP1'', Keycode, ''KEYPAD_ONE''),
     (''KEY_KP2'', Keycode, ''KEYPAD_TWO''),
     (''KEY_KP3'', Keycode, ''KEYPAD_THREE''),
     (''KEY_KP4'', Keycode, ''KEYPAD_FOUR''),
     (''KEY_KP5'', Keycode, ''KEYPAD_FIVE''),
     (''KEY_KP6'', Keycode, ''KEYPAD_SIX''),
     (''KEY_KP7'', Keycode, ''KEYPAD_SEVEN''),
     (''KEY_KP8'', Keycode, ''KEYPAD_EIGHT''),
     (''KEY_KP9'', Keycode, ''KEYPAD_NINE''),
     (''KEY_KP0'', Keycode, ''KEYPAD_ZERO''),
     (''KEY_KPDOT'', Keycode, ''KEYPAD_PERIOD''),
     (''KEY_102ND'', Keycode, ''KEYPAD_BACKSLASH''),
     (''KEY_COMPOSE'', Keycode, ''APPLICATION''),
     (''KEY_POWER'', Keycode, ''POWER''),
     (''KEY_KPEQUAL'', Keycode, ''KEYPAD_EQUALS''),
     (''KEY_KPCOMMA'', Keycode, ''KEYPAD_COMMA''),
     (''KEY_F13'', Keycode, ''F13''),
     (''KEY_F14'', Keycode, ''F14''),
     (''KEY_F15'', Keycode, ''F15''),
     (''KEY_F16'', Keycode, ''F16''),
     (''KEY_F17'', Keycode, ''F17''),
     (''KEY_F18'', Keycode, ''F18''),
     (''KEY_F19'', Keycode, ''F19''),
     (''KEY_F20'', Keycode, ''F20''),
     (''KEY_F21'', Keycode, ''F21''),
     (''KEY_F22'', Keycode, ''F22''),
     (''KEY_F23'', Keycode, ''F23''),
     (''KEY_F24'', Keycode, ''F24''),
     (''KEY_LEFTCTRL'', Keycode, ''LEFT_CONTROL''),
     (''KEY_LEFTSHIFT'', Keycode, ''LEFT_SHIFT''),
     (''KEY_LEFTALT'', Keycode, ''LEFT_ALT''),
     (''KEY_LEFTMETA'', Keycode, ''LEFT_GUI''),
     (''KEY_RIGHTCTRL'', Keycode, ''RIGHT_CONTROL''),
     (''KEY_RIGHTSHIFT'', Keycode, ''RIGHT_SHIFT''),
     (''KEY_RIGHTALT'', Keycode, ''RIGHT_ALT''),
     (''KEY_RIGHTMETA'', Keycode, ''RIGHT_GUI'')]"

text \<open>The section under the comment \<^verbatim>\<open>Mouse buttons\<close>.\<close>

definition mouse_items :: "(string \<times> class_type \<times> string) list" where
  "mouse_items =
    [(''BTN_LEFT'', MouseButton, ''LEFT''),
     (''BTN_RIGHT'', MouseButton, ''RIGHT''),
     (''BTN_MIDDLE'', MouseButton, ''MIDDLE'')]"

text \<open>The section under the comment on the consumer page (\<^verbatim>\<open>0x0C\<close>).\<close>

definition consumer_items :: "(string \<times> class_type \<times> string) list" where
  "consumer_items =
    [(''KEY_POWER'', ConsumerControlCode, ''POWER''),
     (''KEY_RESTART'', ConsumerControlCode, ''RESET''),
     (''KEY_SLEEP'', ConsumerControlCode, ''SLEEP''),
     (''BTN_MISC'', ConsumerControlCode, ''FUNCTION_BUTTONS''),
     (''KEY_MENU'', ConsumerControlCode, ''MENU''),
     (''KEY_SELECT'', ConsumerControlCode, ''MENU_PICK''),
     (''KEY_INFO'', ConsumerControlCode, ''AL_OEM_FEATURES_TIPS_TUTORIAL_BROWSER''),
     (''KEY_SUBTITLE'', ConsumerControlCode, ''CLOSED_CAPTION''),
     (''KEY_VCR'', ConsumerControlCode, ''MEDIA_SELECT_VCR''),
     (''KEY_CAMERA'', ConsumerControlCode, ''SNAPSHOT''),
     (''KEY_RED'', ConsumerControlCode, ''RED_MENU_BUTTON''),
     (''KEY_GREEN'', ConsumerControlCode, ''GREEN_MENU_BUTTON''),
     (''KEY_BLUE'', ConsumerControlCode, ''BLUE_MENU_BUTTON''),
     (''KEY_YELLOW'', ConsumerControlCode, ''YELLOW_MENU_BUTTON''),
     (''KEY_ASPECT_RATIO'', ConsumerControlCode, ''ASPECT''),
     (''KEY_BRIGHTNESSUP'', ConsumerControlCode, ''DISPLAY_BRIGHTNESS_INCREMENT''),
     (''KEY_BRIGHTNESSDOWN'', ConsumerControlCode, ''DISPLAY_BRIGHTNESS_DECREMENT''),
     (''KEY_BRIGHTNESS_TOGGLE'', ConsumerControlCode, ''DISPLAY_BACKLIGHT_TOGGLE''),
     (''KEY_BRIGHTNESS_MIN'', ConsumerControlCode, ''DISPLAY_SET_BRIGHTNESS_TO_MINIMUM''),
     (''KEY_BRIGHTNESS_MAX'', ConsumerControlCode, ''DISPLAY_SET_BRIGHTNESS_TO_MAXIMUM''),
     (''KEY_BRIGHTNESS_AUTO'', ConsumerControlCode, ''DISPLAY_SET_AUTO_BRIGHTNESS''),
     (''KEY_CAMERA_ACCESS_ENABLE'', ConsumerControlCode, ''CAMERA_ACCESS_ENABLED''),
     (''KEY_CAMERA_ACCESS_DISABLE'', ConsumerControlCode, ''CAMERA_ACCESS_DISABLED''),
     (''KEY_CAMERA_ACCESS_TOGGLE'', ConsumerControlCode, ''CAMERA_ACCESS_TOGGLE''),
     (''KEY_KBDILLUMUP'', ConsumerControlCode, ''KEYBOARD_BRIGHTNESS_INCREMENT''),
     (''KEY_KBDILLUMDOWN'', ConsumerControlCode, ''KEYBOARD_BRIGHTNESS_DECREMENT''),
     (''KEY_KBDILLUMTOGGLE'', ConsumerControlCode, ''KEYBOARD_BACKLIGHT_OOC''),
     (''KEY_VIDEO_NEXT'', ConsumerControlCode, ''MODE_STEP''),
     (''KEY_LAST'', ConsumerControlCode, ''RECALL_LAST''),
     (''KEY_PC'', ConsumerControlCode, ''MEDIA_SELECT_COMPUTER''),
     (''KEY_TV'', ConsumerControlCode, ''MEDIA_SELECT_TV''),
     (''KEY_WWW'', ConsumerControlCode, ''AL_INTERNET_BROWSER''),
     (''KEY_DVD'', ConsumerControlCode, ''MEDIA_SELECT_DVD''),
     (''KEY_PHONE'', ConsumerControlCode, ''MEDIA_SELECT_TELEPHONE''),
     (''KEY_PROGRAM'', ConsumerControlCode, ''MEDIA_SELECT_PROGRAM_GUIDE''),
     (''KEY_VIDEOPHONE'', ConsumerControlCode, ''MEDIA_SELECT_VIDEO_PHONE''),
     (''KEY_GAMES'', ConsumerControlCode, ''MEDIA_SELECT_GAMES''),
     (''KEY_MEMO'', ConsumerControlCode, ''MEDIA_SELECT_MESSAGES''),
     (''KEY_CD'', ConsumerControlCode, ''MEDIA_SELECT_CD''),
     (''KEY_TUNER'', ConsumerControlCode, ''MEDIA_SELECT_TUNER''),
     (''KEY_EXIT'', ConsumerControlCode, ''AC_EXIT''),
     (''KEY_HELP'', ConsumerControlCode, ''AL_INTEGRATED_HELP_CENTER''),
     (''KEY_TAPE'', ConsumerControlCode, ''MEDIA_SELECT_TAPE''),
     (''KEY_TV2'', ConsumerControlCode, ''MEDIA_SELECT_CABLE''),
     (''KEY_SAT'', ConsumerControlCode, ''MEDIA_SELECT_SATELLITE''),
     (''KEY_PVR'', ConsumerControlCode, ''MEDIA_SELECT_HOME''),
     (''KEY_CHANNELUP'', ConsumerControlCode, ''CHANNEL_INCREMENT''),
     (''KEY_CHANNELDOWN'', ConsumerControlCode, ''CHANNEL_DECREMENT''),
     (''KEY_VCR2'', ConsumerControlCode, ''VCR_PLUS''),
     (''KEY_PLAY'', ConsumerControlCode, ''PLAY''),
     (''KEY_PAUSE'', ConsumerControlCode, ''PAUSE''),
     (''KEY_RECORD'', ConsumerControlCode, ''RECORD''),
     (''KEY_FASTFORWARD'', ConsumerControlCode, ''FAST_FORWARD''),
     (''KEY_REWIND'', ConsumerControlCode, ''REWIND''),
     (''KEY_NEXTSONG'', ConsumerControlCode, ''SCAN_NEXT_TRACK''),
     (''KEY_PREVIOUSSONG'', ConsumerControlCode, ''SCAN_PREVIOUS_TRACK''),
     (''KEY_STOPCD'', ConsumerControlCode, ''STOP''),
     (''KEY_EJECTCD'', ConsumerControlCode, ''EJECT''),
     (''KEY_MEDIA_REPEAT'', ConsumerControlCode, ''REPEAT''),
     (''KEY_SHUFFLE'', ConsumerControlCode, ''RANDOM_PLAY''),
     (''KEY_SLOW'', ConsumerControlCode, ''SLOW''),
     (''KEY_PLAYPAUSE'', ConsumerControlCode, ''PLAY_PAUSE''),
     (''KEY_VOICECOMMAND'', ConsumerControlCode, ''VOICE_COMMAND''),
     (''KEY_DICTATE'', ConsumerControlCode, ''START_OR_STOP_VOICE_DICTATION_SESSION''),
     (''KEY_EMOJI_PICKER'', ConsumerControlCode, ''INVOKE_OR_DISMISS_EMOJI_PICKER''),
     (''KEY_MUTE'', ConsumerControlCode, ''MUTE''),
     (''KEY_BASSBOOST'', ConsumerControlCode, ''BASS_BOOST''),
     (''KEY_VOLUMEUP'', ConsumerControlCode, ''VOLUME_INCREMENT''),
     (''KEY_VOLUMEDOWN'', ConsumerControlCode, ''VOLUME_DECREMENT''),
     (''KEY_BUTTONCONFIG'', ConsumerControlCode, ''AL_LAUNCH_BUTTON_CONFIGURATION_TOOL''),
     (''KEY_BOOKMARKS'', ConsumerControlCode, ''AC_BOOKMARKS''),
     (''KEY_CONFIG'', ConsumerControlCode, ''AL_CONSUMER_CONTROL_CONFIGURATION_TOOL''),
     (''KEY_WORDPROCESSOR'', ConsumerControlCode, ''AL_WORD_PROCESSOR''),
     (''KEY_EDITOR'', ConsumerControlCode, ''AL_TEXT_EDITOR''),
     (''KEY_SPREADSHEET'', ConsumerControlCode, ''AL_SPREADSHEET''),
     (''KEY_GRAPHICSEDITOR'', ConsumerControlCode, ''AL_GRAPHICS_EDITOR''),
     (''KEY_PRESENTATION'', ConsumerControlCode, ''AL_PRESENTATION_APP''),
     (''KEY_DATABASE'', ConsumerControlCode, ''AL_DATABASE_APP''),
     (''KEY_MAIL'', ConsumerControlCode, ''AL_EMAIL_READER''),
     (''KEY_NEWS'', ConsumerControlCode, ''AL_NEWSREADER''),
     (''KEY_VOICEMAIL'', ConsumerControlCode, ''AL_VOICEMAIL''),
     (''KEY_ADDRESSBOOK'', ConsumerControlCode, ''AL_CONTACTS_ADDRESS_BOOK''),
     (''KEY_CALENDAR'', ConsumerControlCode, ''AL_CALENDAR_SCHEDULE''),
     (''KEY_TASKMANAGER'', ConsumerControlCode, ''AL_TASK_PROJECT_MANAGER''),
     (''KEY_JOURNAL'', ConsumerControlCode, ''AL_LOG_JOURNAL_TIMECARD''),
     (''KEY_FINANCE'', ConsumerControlCode, ''AL_CHECKBOOK_FINANCE''),
     (''KEY_CALC'', ConsumerControlCode, ''AL_CALCULATOR''),
     (''KEY_PLAYER'', ConsumerControlCode, ''AL_AV_CAPTURE_PLAYBACK''),
     (''KEY_FILE'', ConsumerControlCode, ''AL_FILE_BROWSER''),
     (''KEY_CHAT'', ConsumerControlCode, ''AL_NETWORK_CHAT''),
     (''KEY_LOGOFF'', ConsumerControlCode, ''AL_LOGOFF''),
     (''KEY_COFFEE'', ConsumerControlCode, ''AL_TERMINAL_LOCK_SCREENSAVER''),
     (''KEY_CONTROLPANEL'', ConsumerControlCode, ''AL_CONTROL_PANEL''),
     (''KEY_APPSELECT'', ConsumerControlCode, ''AL_SELECT_TASK_APPLICATION''),
     (''KEY_NEXT'', ConsumerControlCode, ''AL_NEXT_TASK_APPLICATION''),
     (''KEY_PREVIOUS'', ConsumerControlCode, ''AL_PREVIOUS_TASK_APPLICATION''),
     (''KEY_DOCUMENTS'', ConsumerControlCode, ''AL_DOCUMENTS''),
     (''KEY_SPELLCHECK'', ConsumerControlCode, ''AL_SPELL_CHECK''),
     (''KEY_KEYBOARD'', ConsumerControlCode, ''AL_KEYBOARD_LAYOUT''),
     (''KEY_SCREENSAVER'', ConsumerControlCode, ''AL_SCREEN_SAVER''),
     (''KEY_IMAGES'', ConsumerControlCode, ''AL_IMAGE_BROWSER''),
     (''KEY_AUDIO'', ConsumerControlCode, ''AL_AUDIO_BROWSER''),
     (''KEY_VIDEO'', ConsumerControlCode, ''AL_MOVIE_BROWSER''),
     (''KEY_MESSENGER'', ConsumerControlCode, ''AL_INSTANT_MESSAGING''),
     (''KEY_ASSISTANT'', ConsumerControlCode, ''AL_CONTEXT_AWARE_DESKTOP_ASSISTANT''),
     (''KEY_NEW'', ConsumerControlCode, ''AC_NEW''),
     (''KEY_OPEN'', ConsumerControlCode, ''AC_OPEN''),
     (''KEY_CLOSE'', ConsumerControlCode, ''AC_CLOSE''),
     (''KEY_SAVE'', ConsumerControlCode, ''AC_SAVE''),
     (''KEY_PROPS'', ConsumerControlCode, ''AC_PROPERTIES''),
     (''KEY_UNDO'', ConsumerControlCode, ''AC_UNDO''),
     (''KEY_COPY'', ConsumerControlCode, ''AC_COPY''),
     (''KEY_CUT'', ConsumerControlCode, ''AC_CUT''),
     (''KEY_PASTE'', ConsumerControlCode, ''AC_PASTE''),
     (''KEY_FIND'', ConsumerControlCode, ''AC_FIND''),
     (''KEY_SEARCH'', ConsumerControlCode, ''AC_SEARCH''),
     (''KEY_GOTO'', ConsumerControlCode, ''AC_GO_TO''),
     (''KEY_HOMEPAGE'', ConsumerControlCode, ''AC_HOME''),
     (''KEY_BACK'', ConsumerControlCode, ''AC_BACK''),
     (''KEY_FORWARD'', ConsumerControlCode, ''AC_FORWARD''),
     (''KEY_STOP'', ConsumerControlCode, ''AC_STOP''),
     (''KEY_REFRESH'', ConsumerControlCode, ''AC_REFRESH''),
     (''KEY_ZOOMIN'', ConsumerControlCode, ''AC_ZOOM_IN''),
     (''KEY_ZOOMOUT'', ConsumerControlCode, ''AC_ZOOM_OUT''),
     (''KEY_ZOOMRESET'', ConsumerControlCode, ''AC_ZOOM''),
     (''KEY_FULL_SCREEN'', ConsumerControlCode, ''AC_VIEW_TOGGLE''),
     (''KEY_SCROLLUP'', ConsumerControlCode, ''AC_SCROLL_UP''),
     (''KEY_SCROLLDOWN'', ConsumerControlCode, ''AC_SCROLL_DOWN''),
     (''KEY_EDIT'', ConsumerControlCode, ''AC_EDIT''),
     (''KEY_CANCEL'', ConsumerControlCode, ''AC_CANCEL''),
     (''KEY_REDO'', ConsumerControlCode, ''AC_REDO_REPEAT''),
     (''KEY_REPLY'', ConsumerControlCode, ''AC_REPLY''),
     (''KEY_FORWARDMAIL'', ConsumerControlCode, ''AC_FORWARD_MSG''),
     (''KEY_SEND'', ConsumerControlCode, ''AC_SEND''),
     (''KEY_KBD_LAYOUT_NEXT'', ConsumerControlCode, ''AC_NEXT_KEYBOARD_LAYOUT_SELECT''),
     (''KEY_ALL_APPLICATIONS'', ConsumerControlCode, ''AC_DESKTOP_SHOW_ALL_APPLICATIONS''),
     (''KEY_KBDINPUTASSIST_PREV'', ConsumerControlCode, ''KEYBOARD_INPUT_ASSIST_PREVIOUS''),
     (''KEY_KBDINPUTASSIST_NEXT'', ConsumerControlCode, ''KEYBOARD_INPUT_ASSIST_NEXT''),
     (''KEY_KBDINPUTASSIST_PREVGROUP'', ConsumerControlCode, ''KEYBOARD_INPUT_ASSIST_PREVIOUS_GROUP''),
     (''KEY_KBDINPUTASSIST_NEXTGROUP'', ConsumerControlCode, ''KEYBOARD_INPUT_ASSIST_NEXT_GROUP''),
     (''KEY_KBDINPUTASSIST_ACCEPT'', ConsumerControlCode, ''KEYBOARD_INPUT_ASSIST_ACCEPT''),
     (''KEY_KBDINPUTASSIST_CANCEL'', ConsumerControlCode, ''KEYBOARD_INPUT_ASSIST_CANCEL''),
     (''KEY_SCALE'', ConsumerControlCode, ''AC_DESKTOP_SHOW_ALL_WINDOWS'')]"

definition EVDEV_TO_HID_items :: "(string \<times> class_type \<times> string) list" where
  "EVDEV_TO_HID_items = keyboard_items @ mouse_items @ consumer_items"

text \<open>The names listed in the set \<^verbatim>\<open>_CONSUMER_KEYS\<close>.\<close>

definition CONSUMER_KEYS_names :: "string list" where
  "CONSUMER_KEYS_names =
    [''KEY_POWER'',
     ''KEY_RESTART'',
     ''KEY_SLEEP'',
     ''BTN_MISC'',
     ''KEY_MENU'',
     ''KEY_SELECT'',
     ''KEY_INFO'',
     ''KEY_SUBTITLE'',
     ''KEY_VCR'',
     ''KEY_CAMERA'',
     ''KEY_RED'',
     ''KEY_GREEN'',
     ''KEY_BLUE'',
     ''KEY_YELLOW'',
     ''KEY_ASPECT_RATIO'',
     ''KEY_BRIGHTNESSUP'',
     ''KEY_BRIGHTNESSDOWN'',
     ''KEY_BRIGHTNESS_TOGGLE'',
     ''KEY_BRIGHTNESS_MIN'',
     ''KEY_BRIGHTNESS_MAX'',
     ''KEY_BRIGHTNESS_AUTO'',
     ''KEY_CAMERA_ACCESS_ENABLE'',
     ''KEY_CAMERA_ACCESS_DISABLE'',
     ''KEY_CAMERA_ACCESS_TOGGLE'',
     ''KEY_KBDILLUMUP'',
     ''KEY_KBDILLUMDOWN'',
     ''KEY_KBDILLUMTOGGLE'',
     ''KEY_VIDEO_NEXT'',
     ''KEY_LAST'',
     ''KEY_PC'',
     ''KEY_TV'',
     ''KEY_WWW'',
     ''KEY_DVD'',
     ''KEY_PHONE'',
     ''KEY_PROGRAM'',
     ''KEY_VIDEOPHONE'',
     ''KEY_GAMES'',
     ''KEY_MEMO'',
     ''KEY_CD'',
     ''KEY_TUNER'',
     ''KEY_EXIT'',
     ''KEY_HELP'',
     ''KEY_TAPE'',
     ''KEY_TV2'',
     ''KEY_SAT'',
     ''KEY_PVR'',
     ''KEY_CHANNELUP'',
     ''KEY_CHANNELDOWN'',
     ''KEY_VCR2'',
     ''KEY_PLAY'',
     ''KEY_PAUSE'',
     ''KEY_RECORD'',
     ''KEY_FASTFORWARD'',
     ''KEY_REWIND'',
     ''KEY_NEXTSONG'',
     ''KEY_PREVIOUSSONG'',
     ''KEY_STOPCD'',
     ''KEY_EJECTCD'',
     ''KEY_MEDIA_REPEAT'',
     ''KEY_SHUFFLE'',
     ''KEY_SLOW'',
     ''KEY_PLAYPAUSE'',
     ''KEY_VOICECOMMAND'',
     ''KEY_DICTATE'',
     ''KEY_EMOJI_PICKER'',
     ''KEY_MUTE'',
     ''KEY_BASSBOOST'',
     ''KEY_VOLUMEUP'',
     ''KEY_VOLUMEDOWN'',
     ''KEY_BUTTONCONFIG'',
     ''KEY_BOOKMARKS'',
     ''KEY_CONFIG'',
     ''KEY_WORDPROCESSOR'',
     ''KEY_EDITOR'',
     ''KEY_SPREADSHEET'',
     ''KEY_GRAPHICSEDITOR'',
     ''KEY_PRESENTATION'',
     ''KEY_DATABASE'',
     ''KEY_MAIL'',
     ''KEY_NEWS'',
     ''KEY_VOICEMAIL'',
     ''KEY_ADDRESSBOOK'',
     ''KEY_CALENDAR'',
     ''KEY_TASKMANAGER'',
     ''KEY_JOURNAL'',
     ''KEY_FINANCE'',
     ''KEY_CALC'',
     ''KEY_PLAYER'',
     ''KEY_FILE'',
     ''KEY_CHAT'',
     ''KEY_LOGOFF'',
     ''KEY_COFFEE'',
     ''KEY_CONTROLPANEL'',
     ''KEY_APPSELECT'',
     ''KEY_NEXT'',
     ''KEY_PREVIOUS'',
     ''KEY_DOCUMENTS'',
     ''KEY_SPELLCHECK'',
     ''KEY_KEYBOARD'',
     ''KEY_SCREENSAVER'',
     ''KEY_IMAGES'',
     ''KEY_AUDIO'',
     ''KEY_VIDEO'',
     ''KEY_MESSENGER'',
     ''KEY_ASSISTANT'',
     ''KEY_NEW'',
     ''KEY_OPEN'',
     ''KEY_CLOSE'',
     ''KEY_SAVE'',
     ''KEY_PROPS'',
     ''KEY_UNDO'',
     ''KEY_COPY'',
     ''KEY_CUT'',
     ''KEY_PASTE'',
     ''KEY_FIND'',
     ''KEY_SEARCH'',
     ''KEY_GOTO'',
     ''KEY_HOMEPAGE'',
     ''KEY_BACK'',
     ''KEY_FORWARD'',
     ''KEY_STOP'',
     ''KEY_REFRESH'',
     ''KEY_ZOOMIN'',
     ''KEY_ZOOMOUT'',
     ''KEY_ZOOMRESET'',
     ''KEY_FULL_SCREEN'',
     ''KEY_SCROLLUP'',
     ''KEY_SCROLLDOWN'',
     ''KEY_EDIT'',
     ''KEY_CANCEL'',
     ''KEY_REDO'',
     ''KEY_REPLY'',
     ''KEY_FORWARDMAIL'',
     ''KEY_SEND'',
     ''KEY_KBD_LAYOUT_NEXT'',
     ''KEY_ALL_APPLICATIONS'',
     ''KEY_KBDINPUTASSIST_PREV'',
     ''KEY_KBDINPUTASSIST_NEXT'',
     ''KEY_KBDINPUTASSIST_PREVGROUP'',
     ''KEY_KBDINPUTASSIST_NEXTGROUP'',
     ''KEY_KBDINPUTASSIST_ACCEPT'',
     ''KEY_KBDINPUTASSIST_CANCEL'',
     ''KEY_SCALE'']"

text \<open>The names listed in the set \<^verbatim>\<open>_MOUSE_BUTTONS\<close>.\<close>

definition MOUSE_BUTTONS_names :: "string list" where
  "MOUSE_BUTTONS_names =
    [''BTN_LEFT'',
     ''BTN_RIGHT'',
     ''BTN_MIDDLE'']"

text \<open>
  A dictionary literal inserts its entries from first to last, so a later entry with an
  equal key replaces an earlier one.
\<close>

definition dict_of :: "('k \<times> 'v) list \<Rightarrow> ('k \<rightharpoonup> 'v)" where
  "dict_of kvs = fold (\<lambda>(k, v) m. m(k \<mapsto> v)) kvs Map.empty"

text \<open>An entry evaluated: the scan code \<^verbatim>\<open>ecodes.k\<close> and the usage id \<^verbatim>\<open>c.v\<close>.\<close>

definition entry :: "env \<Rightarrow> string \<times> class_type \<times> string \<Rightarrow> int \<times> int" where
  "entry env e = (case e of (k, c, v) \<Rightarrow> (attr (env Ecodes) k, attr (env c) v))"

definition EVDEV_TO_HID :: "env \<Rightarrow> (int \<rightharpoonup> int)" where
  "EVDEV_TO_HID env = dict_of (map (entry env) EVDEV_TO_HID_items)"

definition CONSUMER_KEYS :: "env \<Rightarrow> int set" where
  "CONSUMER_KEYS env = set (map (attr (env Ecodes)) CONSUMER_KEYS_names)"

definition MOUSE_BUTTONS :: "env \<Rightarrow> int set" where
  "MOUSE_BUTTONS env = set (map (attr (env Ecodes)) MOUSE_BUTTONS_names)"

subsection \<open>The classifier\<close>

definition is_mouse_button :: "env \<Rightarrow> KeyEvent \<Rightarrow> bool" where
  "is_mouse_button env ev = (scancode ev \<in> MOUSE_BUTTONS env)"

definition is_consumer_key :: "env \<Rightarrow> KeyEvent \<Rightarrow> bool" where
  "is_consumer_key env ev = (scancode ev \<in> CONSUMER_KEYS env)"

definition get_hid_code_type :: "env \<Rightarrow> KeyEvent \<Rightarrow> class_type" where
  "get_hid_code_type env ev =
     (if is_consumer_key env ev then ConsumerControlCode
      else if is_mouse_button env ev then MouseButton
      else Keycode)"

subsection \<open>The memoization caches and the log\<close>

text \<open>
  \<^verbatim>\<open>functools.lru_cache\<close>: the cache is kept most recently used first. A hit returns the
  stored value and moves the entry to the front; a miss calls the function, stores the
  result in front and drops the least recently used entry once the cache holds more
  than \<open>maxsize\<close> entries.
\<close>

definition lru_cache :: "nat \<Rightarrow> ('k \<Rightarrow> 'v) \<Rightarrow> 'k \<Rightarrow> ('k \<times> 'v) list \<Rightarrow> 'v \<times> ('k \<times> 'v) list" where
  "lru_cache maxsize f k cache =
     (case map_of cache k of
        Some v \<Rightarrow> (v, (k, v) # filter (\<lambda>e. fst e \<noteq> k) cache)
      | None \<Rightarrow> (let v = f k in (v, take maxsize ((k, v) # cache))))"

text \<open>What \<^verbatim>\<open>evdev_to_hid\<close> hands to the debug logger: the values its message is formatted from.\<close>

datatype log_record =
  Unsupported int
| Converted int "string option" int "string option"

text \<open>
  The state of the module: the cache of \<^verbatim>\<open>_cached_getattr\<close> (\<^verbatim>\<open>maxsize=512\<close>), the cache
  of \<^verbatim>\<open>_cached_dir\<close> (\<^verbatim>\<open>lru_cache()\<close>, whose default size is 128), and the records logged
  so far, newest first.
\<close>

record state =
  getattr_cache :: "((class_type \<times> string) \<times> pyval) list"
  dir_cache :: "(class_type \<times> string list) list"
  log :: "log_record list"

definition init_state :: state where
  "init_state = \<lparr>getattr_cache = [], dir_cache = [], log = []\<rparr>"

definition cached_getattr :: "env \<Rightarrow> class_type \<Rightarrow> string \<Rightarrow> state \<Rightarrow> pyval \<times> state" where
  "cached_getattr env class_type attribute s =
     (let (v, c) = lru_cache 512 (\<lambda>(t, a). py_getattr (env t) a) (class_type, attribute)
                     (getattr_cache s)
      in (v, s\<lparr>getattr_cache := c\<rparr>))"

definition cached_dir :: "env \<Rightarrow> class_type \<Rightarrow> state \<Rightarrow> string list \<times> state" where
  "cached_dir env class_type s =
     (let (d, c) = lru_cache 128 (\<lambda>t. py_dir (env t)) class_type (dir_cache s)
      in (d, s\<lparr>dir_cache := c\<rparr>))"

definition debug :: "log_record \<Rightarrow> state \<Rightarrow> state" where
  "debug r s = s\<lparr>log := r # log s\<rparr>"

subsection \<open>The name resolvers\<close>

text \<open>The \<^verbatim>\<open>for\<close> loop of \<^verbatim>\<open>find_key_name\<close> over the attribute names still to visit.\<close>

fun find_key_name_loop :: "env \<Rightarrow> int \<Rightarrow> string list \<Rightarrow> state \<Rightarrow> string option \<times> state" where
  "find_key_name_loop env sc [] s = (None, s)"
| "find_key_name_loop env sc (attribute # rest) s =
     (let (v, s') = cached_getattr env Ecodes attribute s
      in if py_eq v (Some sc) \<and> startswith attribute [''KEY_'', ''BTN_'']
         then (Some attribute, s')
         else find_key_name_loop env sc rest s')"

definition find_key_name :: "env \<Rightarrow> KeyEvent \<Rightarrow> state \<Rightarrow> string option \<times> state" where
  "find_key_name env ev s =
     (let (attributes, s') = cached_dir env Ecodes s
      in find_key_name_loop env (scancode ev) attributes s')"

text \<open>The \<^verbatim>\<open>for\<close> loop of \<^verbatim>\<open>find_usage_name\<close>.\<close>

fun find_usage_name_loop ::
  "env \<Rightarrow> class_type \<Rightarrow> int option \<Rightarrow> string list \<Rightarrow> state \<Rightarrow> string option \<times> state" where
  "find_usage_name_loop env code_type hid_usage_id [] s = (None, s)"
| "find_usage_name_loop env code_type hid_usage_id (attribute # rest) s =
     (let (v, s') = cached_getattr env code_type attribute s
      in if py_eq v hid_usage_id then (Some attribute, s')
         else find_usage_name_loop env code_type hid_usage_id rest s')"

definition find_usage_name ::
  "env \<Rightarrow> KeyEvent \<Rightarrow> int option \<Rightarrow> state \<Rightarrow> string option \<times> state" where
  "find_usage_name env ev hid_usage_id s =
     (let code_type = get_hid_code_type env ev;
          (attributes, s') = cached_dir env code_type s
      in find_usage_name_loop env code_type hid_usage_id attributes s')"

subsection \<open>The translator\<close>

definition evdev_to_hid ::
  "env \<Rightarrow> KeyEvent \<Rightarrow> state \<Rightarrow> (int option \<times> string option) \<times> state" where
  "evdev_to_hid env ev s =
     (let sc = scancode ev;
          hid_usage_id = EVDEV_TO_HID env sc;
          (key_name, s1) = find_key_name env ev s;
          (hid_usage_name, s2) = find_usage_name env ev hid_usage_id s1;
          s3 = (case hid_usage_id of
                  None \<Rightarrow> debug (Unsupported sc) s2
                | Some u \<Rightarrow> debug (Converted sc key_name u hid_usage_name) s2)
      in ((hid_usage_id, hid_usage_name), s3))"

subsection \<open>The motion decoder\<close>

definition get_mouse_movement :: "env \<Rightarrow> RelEvent \<Rightarrow> int \<times> int \<times> int" where
  "get_mouse_movement env ev =
     (let input_event = event ev
      in if code input_event = attr (env Ecodes) ''REL_X'' then (ev_value input_event, 0, 0)
         else if code input_event = attr (env Ecodes) ''REL_Y'' then (0, ev_value input_event, 0)
         else if code input_event = attr (env Ecodes) ''REL_WHEEL'' then (0, 0, ev_value input_event)
         else (0, 0, 0))"

subsection \<open>States the module can be in, and what is asked of an environment\<close>

text \<open>A state whose caches hold, for every key, the value the cached function gives.\<close>

definition cache_ok :: "env \<Rightarrow> state \<Rightarrow> bool" where
  "cache_ok env s \<longleftrightarrow>
     (\<forall>((t, a), v) \<in> set (getattr_cache s). v = py_getattr (env t) a) \<and>
     (\<forall>(t, d) \<in> set (dir_cache s). d = py_dir (env t))"

text \<open>
  The states the module reaches. It starts with empty caches (the cold state); every call
  of one of its functions that touch the caches leaves a state behind (a warm one). A
  history is the list of the calls made so far.
\<close>

datatype call =
  Call_evdev_to_hid KeyEvent
| Call_find_key_name KeyEvent
| Call_find_usage_name KeyEvent "int option"
| Call_cached_getattr class_type string
| Call_cached_dir class_type

fun after_call :: "env \<Rightarrow> state \<Rightarrow> call \<Rightarrow> state" where
  "after_call env s (Call_evdev_to_hid ev) = snd (evdev_to_hid env ev s)"
| "after_call env s (Call_find_key_name ev) = snd (find_key_name env ev s)"
| "after_call env s (Call_find_usage_name ev hid_usage_id) =
     snd (find_usage_name env ev hid_usage_id s)"
| "after_call env s (Call_cached_getattr class_type attribute) =
     snd (cached_getattr env class_type attribute s)"
| "after_call env s (Call_cached_dir class_type) = snd (cached_dir env class_type s)"

definition after_calls :: "env \<Rightarrow> call list \<Rightarrow> state" where
  "after_calls env calls = foldl (after_call env) init_state calls"

text \<open>
  Reflection agrees with the constants of the table: \<^verbatim>\<open>dir\<close> of a usage class lists every
  usage name the table reads from it, and \<^verbatim>\<open>getattr\<close> returns the constant's value.
\<close>

definition reflects :: "env \<Rightarrow> bool" where
  "reflects env \<longleftrightarrow>
     (\<forall>(k, c, v) \<in> set EVDEV_TO_HID_items.
        v \<in> set (py_dir (env c)) \<and> py_getattr (env c) v = PInt (attr (env c) v))"

text \<open>No attribute that \<^verbatim>\<open>dir\<close> lists for the class has the value \<^verbatim>\<open>None\<close>.\<close>

definition no_none_attribute :: "env \<Rightarrow> class_type \<Rightarrow> bool" where
  "no_none_attribute env c \<longleftrightarrow> (\<forall>a \<in> set (py_dir (env c)). py_getattr (env c) a \<noteq> PNone)"

text \<open>The number of non-zero fields of a motion sample.\<close>

definition nonzero_fields :: "int \<times> int \<times> int \<Rightarrow> nat" where
  "nonzero_fields m =
     (case m of (x, y, mwheel) \<Rightarrow>
        (if x \<noteq> 0 then 1 else 0) + (if y \<noteq> 0 then 1 else 0) + (if mwheel \<noteq> 0 then 1 else 0))"

subsection \<open>A sample environment\<close>

text \<open>
  An environment to run the definitions in. Its scan codes are numbered as the Linux
  input-event-codes header numbers them and its usage ids as the HID usage tables do;
  each namespace lists its members in the order \<^verbatim>\<open>dir\<close> returns them (sorted by name),
  with a few members that are not integer constants and a few aliases (two names for
  one value). The lists are cut in parts of 32 members.
\<close>

definition sample_ecodes_1 :: "(string \<times> pyval) list" where
  "sample_ecodes_1 =
    [(''BTN'', PObj),
     (''BTN_0'', PInt 256),
     (''BTN_LEFT'', PInt 272),
     (''BTN_MIDDLE'', PInt 274),
     (''BTN_MISC'', PInt 256),
     (''BTN_MOUSE'', PInt 272),
     (''BTN_RIGHT'', PInt 273),
     (''EV_KEY'', PInt 1),
     (''EV_REL'', PInt 2),
     (''KEY'', PObj),
     (''KEY_0'', PInt 11),
     (''KEY_1'', PInt 2),
     (''KEY_102ND'', PInt 86),
     (''KEY_2'', PInt 3),
     (''KEY_3'', PInt 4),
     (''KEY_4'', PInt 5),
     (''KEY_5'', PInt 6),
     (''KEY_6'', PInt 7),
     (''KEY_7'', PInt 8),
     (''KEY_8'', PInt 9),
     (''KEY_9'', PInt 10),
     (''KEY_A'', PInt 30),
     (''KEY_ADDRESSBOOK'', PInt 429),
     (''KEY_ALL_APPLICATIONS'', PInt 204),
     (''KEY_APOSTROPHE'', PInt 40),
     (''KEY_APPSELECT'', PInt 580),
     (''KEY_ASPECT_RATIO'', PInt 375),
     (''KEY_ASSISTANT'', PInt 583),
     (''KEY_AUDIO'', PInt 392),
     (''KEY_B'', PInt 48),
     (''KEY_BACK'', PInt 158),
     (''KEY_BACKSLASH'', PInt 43)]"

definition sample_ecodes_2 :: "(string \<times> pyval) list" where
  "sample_ecodes_2 =
    [(''KEY_BACKSPACE'', PInt 14),
     (''KEY_BASSBOOST'', PInt 209),
     (''KEY_BLUE'', PInt 401),
     (''KEY_BOOKMARKS'', PInt 156),
     (''KEY_BRIGHTNESSDOWN'', PInt 224),
     (''KEY_BRIGHTNESSUP'', PInt 225),
     (''KEY_BRIGHTNESS_AUTO'', PInt 244),
     (''KEY_BRIGHTNESS_MAX'', PInt 593),
     (''KEY_BRIGHTNESS_MIN'', PInt 592),
     (''KEY_BRIGHTNESS_TOGGLE'', PInt 431),
     (''KEY_BUTTONCONFIG'', PInt 576),
     (''KEY_C'', PInt 46),
     (''KEY_CALC'', PInt 140),
     (''KEY_CALENDAR'', PInt 397),
     (''KEY_CAMERA'', PInt 212),
     (''KEY_CAMERA_ACCESS_DISABLE'', PInt 588),
     (''KEY_CAMERA_ACCESS_ENABLE'', PInt 587),
     (''KEY_CAMERA_ACCESS_TOGGLE'', PInt 589),
     (''KEY_CANCEL'', PInt 223),
     (''KEY_CAPSLOCK'', PInt 58),
     (''KEY_CD'', PInt 383),
     (''KEY_CHANNELDOWN'', PInt 403),
     (''KEY_CHANNELUP'', PInt 402),
     (''KEY_CHAT'', PInt 216),
     (''KEY_CLOSE'', PInt 206),
     (''KEY_COFFEE'', PInt 152),
     (''KEY_COMMA'', PInt 51),
     (''KEY_COMPOSE'', PInt 127),
     (''KEY_CONFIG'', PInt 171),
     (''KEY_CONTROLPANEL'', PInt 579),
     (''KEY_COPY'', PInt 133),
     (''KEY_CUT'', PInt 137)]"

definition sample_ecodes_3 :: "(string \<times> pyval) list" where
  "sample_ecodes_3 =
    [(''KEY_D'', PInt 32),
     (''KEY_DATABASE'', PInt 426),
     (''KEY_DELETE'', PInt 111),
     (''KEY_DICTATE'', PInt 586),
     (''KEY_DOCUMENTS'', PInt 235),
     (''KEY_DOT'', PInt 52),
     (''KEY_DOWN'', PInt 108),
     (''KEY_DVD'', PInt 389),
     (''KEY_E'', PInt 18),
     (''KEY_EDIT'', PInt 176),
     (''KEY_EDITOR'', PInt 422),
     (''KEY_EJECTCD'', PInt 161),
     (''KEY_EMOJI_PICKER'', PInt 585),
     (''KEY_END'', PInt 107),
     (''KEY_ENTER'', PInt 28),
     (''KEY_EQUAL'', PInt 13),
     (''KEY_ESC'', PInt 1),
     (''KEY_EXIT'', PInt 174),
     (''KEY_F'', PInt 33),
     (''KEY_F1'', PInt 59),
     (''KEY_F10'', PInt 68),
     (''KEY_F11'', PInt 87),
     (''KEY_F12'', PInt 88),
     (''KEY_F13'', PInt 183),
     (''KEY_F14'', PInt 184),
     (''KEY_F15'', PInt 185),
     (''KEY_F16'', PInt 186),
     (''KEY_F17'', PInt 187),
     (''KEY_F18'', PInt 188),
     (''KEY_F19'', PInt 189),
     (''KEY_F2'', PInt 60),
     (''KEY_F20'', PInt 190)]"

definition sample_ecodes_4 :: "(string \<times> pyval) list" where
  "sample_ecodes_4 =
    [(''KEY_F21'', PInt 191),
     (''KEY_F22'', PInt 192),
     (''KEY_F23'', PInt 193),
     (''KEY_F24'', PInt 194),
     (''KEY_F3'', PInt 61),
     (''KEY_F4'', PInt 62),
     (''KEY_F5'', PInt 63),
     (''KEY_F6'', PInt 64),
     (''KEY_F7'', PInt 65),
     (''KEY_F8'', PInt 66),
     (''KEY_F9'', PInt 67),
     (''KEY_FASTFORWARD'', PInt 208),
     (''KEY_FILE'', PInt 144),
     (''KEY_FINANCE'', PInt 219),
     (''KEY_FIND'', PInt 136),
     (''KEY_FORWARD'', PInt 159),
     (''KEY_FORWARDMAIL'', PInt 233),
     (''KEY_FULL_SCREEN'', PInt 372),
     (''KEY_G'', PInt 34),
     (''KEY_GAMES'', PInt 417),
     (''KEY_GOTO'', PInt 354),
     (''KEY_GRAPHICSEDITOR'', PInt 424),
     (''KEY_GRAVE'', PInt 41),
     (''KEY_GREEN'', PInt 399),
     (''KEY_H'', PInt 35),
     (''KEY_HELP'', PInt 138),
     (''KEY_HOME'', PInt 102),
     (''KEY_HOMEPAGE'', PInt 172),
     (''KEY_I'', PInt 23),
     (''KEY_IMAGES'', PInt 442),
     (''KEY_INFO'', PInt 358),
     (''KEY_INSERT'', PInt 110)]"

definition sample_ecodes_5 :: "(string \<times> pyval) list" where
  "sample_ecodes_5 =
    [(''KEY_J'', PInt 36),
     (''KEY_JOURNAL'', PInt 578),
     (''KEY_K'', PInt 37),
     (''KEY_KBDILLUMDOWN'', PInt 229),
     (''KEY_KBDILLUMTOGGLE'', PInt 228),
     (''KEY_KBDILLUMUP'', PInt 230),
     (''KEY_KBDINPUTASSIST_ACCEPT'', PInt 612),
     (''KEY_KBDINPUTASSIST_CANCEL'', PInt 613),
     (''KEY_KBDINPUTASSIST_NEXT'', PInt 609),
     (''KEY_KBDINPUTASSIST_NEXTGROUP'', PInt 611),
     (''KEY_KBDINPUTASSIST_PREV'', PInt 608),
     (''KEY_KBDINPUTASSIST_PREVGROUP'', PInt 610),
     (''KEY_KBD_LAYOUT_NEXT'', PInt 584),
     (''KEY_KEYBOARD'', PInt 374),
     (''KEY_KP0'', PInt 82),
     (''KEY_KP1'', PInt 79),
     (''KEY_KP2'', PInt 80),
     (''KEY_KP3'', PInt 81),
     (''KEY_KP4'', PInt 75),
     (''KEY_KP5'', PInt 76),
     (''KEY_KP6'', PInt 77),
     (''KEY_KP7'', PInt 71),
     (''KEY_KP8'', PInt 72),
     (''KEY_KP9'', PInt 73),
     (''KEY_KPASTERISK'', PInt 55),
     (''KEY_KPCOMMA'', PInt 121),
     (''KEY_KPDOT'', PInt 83),
     (''KEY_KPENTER'', PInt 96),
     (''KEY_KPEQUAL'', PInt 117),
     (''KEY_KPMINUS'', PInt 74),
     (''KEY_KPPLUS'', PInt 78),
     (''KEY_KPSLASH'', PInt 98)]"

definition sample_ecodes_6 :: "(string \<times> pyval) list" where
  "sample_ecodes_6 =
    [(''KEY_L'', PInt 38),
     (''KEY_LAST'', PInt 405),
     (''KEY_LEFT'', PInt 105),
     (''KEY_LEFTALT'', PInt 56),
     (''KEY_LEFTBRACE'', PInt 26),
     (''KEY_LEFTCTRL'', PInt 29),
     (''KEY_LEFTMETA'', PInt 125),
     (''KEY_LEFTSHIFT'', PInt 42),
     (''KEY_LOGOFF'', PInt 433),
     (''KEY_M'', PInt 50),
     (''KEY_MAIL'', PInt 155),
     (''KEY_MEDIA_REPEAT'', PInt 439),
     (''KEY_MEMO'', PInt 396),
     (''KEY_MENU'', PInt 139),
     (''KEY_MESSENGER'', PInt 430),
     (''KEY_MINUS'', PInt 12),
     (''KEY_MUTE'', PInt 113),
     (''KEY_N'', PInt 49),
     (''KEY_NEW'', PInt 181),
     (''KEY_NEWS'', PInt 427),
     (''KEY_NEXT'', PInt 407),
     (''KEY_NEXTSONG'', PInt 163),
     (''KEY_NUMLOCK'', PInt 69),
     (''KEY_O'', PInt 24),
     (''KEY_OPEN'', PInt 134),
     (''KEY_P'', PInt 25),
     (''KEY_PAGEDOWN'', PInt 109),
     (''KEY_PAGEUP'', PInt 104),
     (''KEY_PASTE'', PInt 135),
     (''KEY_PAUSE'', PInt 119),
     (''KEY_PC'', PInt 376),
     (''KEY_PHONE'', PInt 169)]"

definition sample_ecodes_7 :: "(string \<times> pyval) list" where
  "sample_ecodes_7 =
    [(''KEY_PLAY'', PInt 207),
     (''KEY_PLAYER'', PInt 387),
     (''KEY_PLAYPAUSE'', PInt 164),
     (''KEY_POWER'', PInt 116),
     (''KEY_PRESENTATION'', PInt 425),
     (''KEY_PREVIOUS'', PInt 412),
     (''KEY_PREVIOUSSONG'', PInt 165),
     (''KEY_PROGRAM'', PInt 362),
     (''KEY_PROPS'', PInt 130),
     (''KEY_PVR'', PInt 366),
     (''KEY_Q'', PInt 16),
     (''KEY_R'', PInt 19),
     (''KEY_RECORD'', PInt 167),
     (''KEY_RED'', PInt 398),
     (''KEY_REDO'', PInt 182),
     (''KEY_REFRESH'', PInt 173),
     (''KEY_REPLY'', PInt 232),
     (''KEY_RESTART'', PInt 408),
     (''KEY_REWIND'', PInt 168),
     (''KEY_RIGHT'', PInt 106),
     (''KEY_RIGHTALT'', PInt 100),
     (''KEY_RIGHTBRACE'', PInt 27),
     (''KEY_RIGHTCTRL'', PInt 97),
     (''KEY_RIGHTMETA'', PInt 126),
     (''KEY_RIGHTSHIFT'', PInt 54),
     (''KEY_S'', PInt 31),
     (''KEY_SAT'', PInt 381),
     (''KEY_SAVE'', PInt 234),
     (''KEY_SCALE'', PInt 120),
     (''KEY_SCREENSAVER'', PInt 581),
     (''KEY_SCROLLDOWN'', PInt 178),
     (''KEY_SCROLLLOCK'', PInt 70)]"

definition sample_ecodes_8 :: "(string \<times> pyval) list" where
  "sample_ecodes_8 =
    [(''KEY_SCROLLUP'', PInt 177),
     (''KEY_SEARCH'', PInt 217),
     (''KEY_SELECT'', PInt 353),
     (''KEY_SEMICOLON'', PInt 39),
     (''KEY_SEND'', PInt 231),
     (''KEY_SHUFFLE'', PInt 410),
     (''KEY_SLASH'', PInt 53),
     (''KEY_SLEEP'', PInt 142),
     (''KEY_SLOW'', PInt 409),
     (''KEY_SPACE'', PInt 57),
     (''KEY_SPELLCHECK'', PInt 432),
     (''KEY_SPREADSHEET'', PInt 423),
     (''KEY_STOP'', PInt 128),
     (''KEY_STOPCD'', PInt 166),
     (''KEY_SUBTITLE'', PInt 370),
     (''KEY_SYSRQ'', PInt 99),
     (''KEY_T'', PInt 20),
     (''KEY_TAB'', PInt 15),
     (''KEY_TAPE'', PInt 384),
     (''KEY_TASKMANAGER'', PInt 577),
     (''KEY_TUNER'', PInt 386),
     (''KEY_TV'', PInt 377),
     (''KEY_TV2'', PInt 378),
     (''KEY_U'', PInt 22),
     (''KEY_UNDO'', PInt 131),
     (''KEY_UP'', PInt 103),
     (''KEY_V'', PInt 47),
     (''KEY_VCR'', PInt 379),
     (''KEY_VCR2'', PInt 380),
     (''KEY_VIDEO'', PInt 393),
     (''KEY_VIDEOPHONE'', PInt 416),
     (''KEY_VIDEO_NEXT'', PInt 241)]"

definition sample_ecodes_9 :: "(string \<times> pyval) list" where
  "sample_ecodes_9 =
    [(''KEY_VOICECOMMAND'', PInt 582),
     (''KEY_VOICEMAIL'', PInt 428),
     (''KEY_VOLUMEDOWN'', PInt 114),
     (''KEY_VOLUMEUP'', PInt 115),
     (''KEY_W'', PInt 17),
     (''KEY_WORDPROCESSOR'', PInt 421),
     (''KEY_WWW'', PInt 150),
     (''KEY_X'', PInt 45),
     (''KEY_Y'', PInt 21),
     (''KEY_YELLOW'', PInt 400),
     (''KEY_Z'', PInt 44),
     (''KEY_ZOOMIN'', PInt 418),
     (''KEY_ZOOMOUT'', PInt 419),
     (''KEY_ZOOMRESET'', PInt 420),
     (''REL_HWHEEL'', PInt 6),
     (''REL_WHEEL'', PInt 8),
     (''REL_X'', PInt 0),
     (''REL_Y'', PInt 1),
     (''__doc__'', PObj),
     (''__name__'', PObj)]"

definition sample_Keycode_1 :: "(string \<times> pyval) list" where
  "sample_Keycode_1 =
    [(''A'', PInt 4),
     (''ALT'', PInt 226),
     (''APPLICATION'', PInt 101),
     (''B'', PInt 5),
     (''BACKSLASH'', PInt 49),
     (''BACKSPACE'', PInt 42),
     (''C'', PInt 6),
     (''CAPS_LOCK'', PInt 57),
     (''COMMA'', PInt 54),
     (''CONTROL'', PInt 224),
     (''D'', PInt 7),
     (''DELETE'', PInt 76),
     (''DOWN_ARROW'', PInt 81),
     (''E'', PInt 8),
     (''EIGHT'', PInt 37),
     (''END'', PInt 77),
     (''ENTER'', PInt 40),
     (''EQUALS'', PInt 46),
     (''ESCAPE'', PInt 41),
     (''F'', PInt 9),
     (''F1'', PInt 58),
     (''F10'', PInt 67),
     (''F11'', PInt 68),
     (''F12'', PInt 69),
     (''F13'', PInt 104),
     (''F14'', PInt 105),
     (''F15'', PInt 106),
     (''F16'', PInt 107),
     (''F17'', PInt 108),
     (''F18'', PInt 109),
     (''F19'', PInt 110),
     (''F2'', PInt 59)]"

definition sample_Keycode_2 :: "(string \<times> pyval) list" where
  "sample_Keycode_2 =
    [(''F20'', PInt 111),
     (''F21'', PInt 112),
     (''F22'', PInt 113),
     (''F23'', PInt 114),
     (''F24'', PInt 115),
     (''F3'', PInt 60),
     (''F4'', PInt 61),
     (''F5'', PInt 62),
     (''F6'', PInt 63),
     (''F7'', PInt 64),
     (''F8'', PInt 65),
     (''F9'', PInt 66),
     (''FIVE'', PInt 34),
     (''FORWARD_SLASH'', PInt 56),
     (''FOUR'', PInt 33),
     (''G'', PInt 10),
     (''GRAVE_ACCENT'', PInt 53),
     (''GUI'', PInt 227),
     (''H'', PInt 11),
     (''HOME'', PInt 74),
     (''I'', PInt 12),
     (''INSERT'', PInt 73),
     (''J'', PInt 13),
     (''K'', PInt 14),
     (''KEYPAD_ASTERISK'', PInt 85),
     (''KEYPAD_BACKSLASH'', PInt 100),
     (''KEYPAD_COMMA'', PInt 133),
     (''KEYPAD_EIGHT'', PInt 96),
     (''KEYPAD_ENTER'', PInt 88),
     (''KEYPAD_EQUALS'', PInt 103),
     (''KEYPAD_FIVE'', PInt 93),
     (''KEYPAD_FORWARD_SLASH'', PInt 84)]"

definition sample_Keycode_3 :: "(string \<times> pyval) list" where
  "sample_Keycode_3 =
    [(''KEYPAD_FOUR'', PInt 92),
     (''KEYPAD_MINUS'', PInt 86),
     (''KEYPAD_NINE'', PInt 97),
     (''KEYPAD_NUMLOCK'', PInt 83),
     (''KEYPAD_ONE'', PInt 89),
     (''KEYPAD_PERIOD'', PInt 99),
     (''KEYPAD_PLUS'', PInt 87),
     (''KEYPAD_SEVEN'', PInt 95),
     (''KEYPAD_SIX'', PInt 94),
     (''KEYPAD_THREE'', PInt 91),
     (''KEYPAD_TWO'', PInt 90),
     (''KEYPAD_ZERO'', PInt 98),
     (''L'', PInt 15),
     (''LEFT_ALT'', PInt 226),
     (''LEFT_ARROW'', PInt 80),
     (''LEFT_BRACKET'', PInt 47),
     (''LEFT_CONTROL'', PInt 224),
     (''LEFT_GUI'', PInt 227),
     (''LEFT_SHIFT'', PInt 225),
     (''M'', PInt 16),
     (''MINUS'', PInt 45),
     (''N'', PInt 17),
     (''NINE'', PInt 38),
     (''O'', PInt 18),
     (''ONE'', PInt 30),
     (''P'', PInt 19),
     (''PAGE_DOWN'', PInt 78),
     (''PAGE_UP'', PInt 75),
     (''PAUSE'', PInt 72),
     (''PERIOD'', PInt 55),
     (''POUND'', PInt 50),
     (''POWER'', PInt 102)]"

definition sample_Keycode_4 :: "(string \<times> pyval) list" where
  "sample_Keycode_4 =
    [(''PRINT_SCREEN'', PInt 70),
     (''Q'', PInt 20),
     (''QUOTE'', PInt 52),
     (''R'', PInt 21),
     (''RETURN'', PInt 40),
     (''RIGHT_ALT'', PInt 230),
     (''RIGHT_ARROW'', PInt 79),
     (''RIGHT_BRACKET'', PInt 48),
     (''RIGHT_CONTROL'', PInt 228),
     (''RIGHT_GUI'', PInt 231),
     (''RIGHT_SHIFT'', PInt 229),
     (''S'', PInt 22),
     (''SCROLL_LOCK'', PInt 71),
     (''SEMICOLON'', PInt 51),
     (''SEVEN'', PInt 36),
     (''SHIFT'', PInt 225),
     (''SIX'', PInt 35),
     (''SPACE'', PInt 44),
     (''SPACEBAR'', PInt 44),
     (''T'', PInt 23),
     (''TAB'', PInt 43),
     (''THREE'', PInt 32),
     (''TWO'', PInt 31),
     (''U'', PInt 24),
     (''UP_ARROW'', PInt 82),
     (''V'', PInt 25),
     (''W'', PInt 26),
     (''X'', PInt 27),
     (''Y'', PInt 28),
     (''Z'', PInt 29),
     (''ZERO'', PInt 39),
     (''__class__'', PObj)]"

definition sample_Keycode_5 :: "(string \<times> pyval) list" where
  "sample_Keycode_5 =
    [(''__dict__'', PObj),
     (''__doc__'', PObj),
     (''__init__'', PObj),
     (''__module__'', PObj),
     (''modifier_bit'', PObj)]"

definition sample_ConsumerControlCode_1 :: "(string \<times> pyval) list" where
  "sample_ConsumerControlCode_1 =
    [(''AC_BACK'', PInt 548),
     (''AC_BOOKMARKS'', PInt 554),
     (''AC_CANCEL'', PInt 607),
     (''AC_CLOSE'', PInt 515),
     (''AC_COPY'', PInt 539),
     (''AC_CUT'', PInt 540),
     (''AC_DESKTOP_SHOW_ALL_APPLICATIONS'', PInt 674),
     (''AC_DESKTOP_SHOW_ALL_WINDOWS'', PInt 671),
     (''AC_EDIT'', PInt 573),
     (''AC_EXIT'', PInt 516),
     (''AC_FIND'', PInt 543),
     (''AC_FORWARD'', PInt 549),
     (''AC_FORWARD_MSG'', PInt 651),
     (''AC_GO_TO'', PInt 546),
     (''AC_HOME'', PInt 547),
     (''AC_NEW'', PInt 513),
     (''AC_NEXT_KEYBOARD_LAYOUT_SELECT'', PInt 669),
     (''AC_OPEN'', PInt 514),
     (''AC_PASTE'', PInt 541),
     (''AC_PROPERTIES'', PInt 521),
     (''AC_REDO_REPEAT'', PInt 633),
     (''AC_REFRESH'', PInt 551),
     (''AC_REPLY'', PInt 649),
     (''AC_SAVE'', PInt 519),
     (''AC_SCROLL_DOWN'', PInt 564),
     (''AC_SCROLL_UP'', PInt 563),
     (''AC_SEARCH'', PInt 545),
     (''AC_SEND'', PInt 652),
     (''AC_STOP'', PInt 550),
     (''AC_UNDO'', PInt 538),
     (''AC_VIEW_TOGGLE'', PInt 562),
     (''AC_ZOOM'', PInt 559)]"

definition sample_ConsumerControlCode_2 :: "(string \<times> pyval) list" where
  "sample_ConsumerControlCode_2 =
    [(''AC_ZOOM_IN'', PInt 557),
     (''AC_ZOOM_OUT'', PInt 558),
     (''AL_AUDIO_BROWSER'', PInt 439),
     (''AL_AV_CAPTURE_PLAYBACK'', PInt 403),
     (''AL_CALCULATOR'', PInt 402),
     (''AL_CALENDAR_SCHEDULE'', PInt 398),
     (''AL_CHECKBOOK_FINANCE'', PInt 401),
     (''AL_CONSUMER_CONTROL_CONFIGURATION_TOOL'', PInt 387),
     (''AL_CONTACTS_ADDRESS_BOOK'', PInt 397),
     (''AL_CONTEXT_AWARE_DESKTOP_ASSISTANT'', PInt 459),
     (''AL_CONTROL_PANEL'', PInt 415),
     (''AL_DATABASE_APP'', PInt 393),
     (''AL_DOCUMENTS'', PInt 423),
     (''AL_EMAIL_READER'', PInt 394),
     (''AL_FILE_BROWSER'', PInt 436),
     (''AL_GRAPHICS_EDITOR'', PInt 391),
     (''AL_IMAGE_BROWSER'', PInt 438),
     (''AL_INSTANT_MESSAGING'', PInt 444),
     (''AL_INTEGRATED_HELP_CENTER'', PInt 422),
     (''AL_INTERNET_BROWSER'', PInt 406),
     (''AL_KEYBOARD_LAYOUT'', PInt 430),
     (''AL_LAUNCH_BUTTON_CONFIGURATION_TOOL'', PInt 385),
     (''AL_LOGOFF'', PInt 412),
     (''AL_LOG_JOURNAL_TIMECARD'', PInt 400),
     (''AL_MOVIE_BROWSER'', PInt 440),
     (''AL_NETWORK_CHAT'', PInt 409),
     (''AL_NEWSREADER'', PInt 395),
     (''AL_NEXT_TASK_APPLICATION'', PInt 419),
     (''AL_OEM_FEATURES_TIPS_TUTORIAL_BROWSER'', PInt 445),
     (''AL_PRESENTATION_APP'', PInt 392),
     (''AL_PREVIOUS_TASK_APPLICATION'', PInt 420),
     (''AL_SCREEN_SAVER'', PInt 433)]"

definition sample_ConsumerControlCode_3 :: "(string \<times> pyval) list" where
  "sample_ConsumerControlCode_3 =
    [(''AL_SELECT_TASK_APPLICATION'', PInt 418),
     (''AL_SPELL_CHECK'', PInt 427),
     (''AL_SPREADSHEET'', PInt 390),
     (''AL_TASK_PROJECT_MANAGER'', PInt 399),
     (''AL_TERMINAL_LOCK_SCREENSAVER'', PInt 414),
     (''AL_TEXT_EDITOR'', PInt 389),
     (''AL_VOICEMAIL'', PInt 396),
     (''AL_WORD_PROCESSOR'', PInt 388),
     (''ASPECT'', PInt 109),
     (''BASS_BOOST'', PInt 229),
     (''BLUE_MENU_BUTTON'', PInt 107),
     (''CAMERA_ACCESS_DISABLED'', PInt 119),
     (''CAMERA_ACCESS_ENABLED'', PInt 118),
     (''CAMERA_ACCESS_TOGGLE'', PInt 120),
     (''CHANNEL_DECREMENT'', PInt 157),
     (''CHANNEL_INCREMENT'', PInt 156),
     (''CLOSED_CAPTION'', PInt 97),
     (''DISPLAY_BACKLIGHT_TOGGLE'', PInt 114),
     (''DISPLAY_BRIGHTNESS_DECREMENT'', PInt 112),
     (''DISPLAY_BRIGHTNESS_INCREMENT'', PInt 111),
     (''DISPLAY_SET_AUTO_BRIGHTNESS'', PInt 117),
     (''DISPLAY_SET_BRIGHTNESS_TO_MAXIMUM'', PInt 116),
     (''DISPLAY_SET_BRIGHTNESS_TO_MINIMUM'', PInt 115),
     (''EJECT'', PInt 184),
     (''FAST_FORWARD'', PInt 179),
     (''FUNCTION_BUTTONS'', PInt 54),
     (''GREEN_MENU_BUTTON'', PInt 106),
     (''INVOKE_OR_DISMISS_EMOJI_PICKER'', PInt 217),
     (''KEYBOARD_BACKLIGHT_OOC'', PInt 124),
     (''KEYBOARD_BRIGHTNESS_DECREMENT'', PInt 122),
     (''KEYBOARD_BRIGHTNESS_INCREMENT'', PInt 121),
     (''KEYBOARD_INPUT_ASSIST_ACCEPT'', PInt 715)]"

definition sample_ConsumerControlCode_4 :: "(string \<times> pyval) list" where
  "sample_ConsumerControlCode_4 =
    [(''KEYBOARD_INPUT_ASSIST_CANCEL'', PInt 716),
     (''KEYBOARD_INPUT_ASSIST_NEXT'', PInt 712),
     (''KEYBOARD_INPUT_ASSIST_NEXT_GROUP'', PInt 714),
     (''KEYBOARD_INPUT_ASSIST_PREVIOUS'', PInt 711),
     (''KEYBOARD_INPUT_ASSIST_PREVIOUS_GROUP'', PInt 713),
     (''MEDIA_SELECT_CABLE'', PInt 151),
     (''MEDIA_SELECT_CD'', PInt 145),
     (''MEDIA_SELECT_COMPUTER'', PInt 136),
     (''MEDIA_SELECT_DVD'', PInt 139),
     (''MEDIA_SELECT_GAMES'', PInt 143),
     (''MEDIA_SELECT_HOME'', PInt 154),
     (''MEDIA_SELECT_MESSAGES'', PInt 144),
     (''MEDIA_SELECT_PROGRAM_GUIDE'', PInt 141),
     (''MEDIA_SELECT_SATELLITE'', PInt 152),
     (''MEDIA_SELECT_TAPE'', PInt 150),
     (''MEDIA_SELECT_TELEPHONE'', PInt 140),
     (''MEDIA_SELECT_TUNER'', PInt 147),
     (''MEDIA_SELECT_TV'', PInt 137),
     (''MEDIA_SELECT_VCR'', PInt 146),
     (''MEDIA_SELECT_VIDEO_PHONE'', PInt 142),
     (''MENU'', PInt 64),
     (''MENU_PICK'', PInt 65),
     (''MODE_STEP'', PInt 130),
     (''MUTE'', PInt 226),
     (''PAUSE'', PInt 177),
     (''PLAY'', PInt 176),
     (''PLAY_PAUSE'', PInt 205),
     (''POWER'', PInt 48),
     (''RANDOM_PLAY'', PInt 185),
     (''RECALL_LAST'', PInt 131),
     (''RECORD'', PInt 178),
     (''RED_MENU_BUTTON'', PInt 105)]"

definition sample_ConsumerControlCode_5 :: "(string \<times> pyval) list" where
  "sample_ConsumerControlCode_5 =
    [(''REPEAT'', PInt 188),
     (''RESET'', PInt 49),
     (''REWIND'', PInt 180),
     (''SCAN_NEXT_TRACK'', PInt 181),
     (''SCAN_PREVIOUS_TRACK'', PInt 182),
     (''SLEEP'', PInt 50),
     (''SLOW'', PInt 245),
     (''SNAPSHOT'', PInt 101),
     (''START_OR_STOP_VOICE_DICTATION_SESSION'', PInt 216),
     (''STOP'', PInt 183),
     (''VCR_PLUS'', PInt 160),
     (''VOICE_COMMAND'', PInt 207),
     (''VOLUME_DECREMENT'', PInt 234),
     (''VOLUME_INCREMENT'', PInt 233),
     (''YELLOW_MENU_BUTTON'', PInt 108),
     (''__class__'', PObj),
     (''__dict__'', PObj),
     (''__doc__'', PObj),
     (''__init__'', PObj),
     (''__module__'', PObj)]"

definition sample_MouseButton_1 :: "(string \<times> pyval) list" where
  "sample_MouseButton_1 =
    [(''LEFT'', PInt 1),
     (''MIDDLE'', PInt 4),
     (''RIGHT'', PInt 2),
     (''__class__'', PObj),
     (''__dict__'', PObj),
     (''__doc__'', PObj),
     (''__init__'', PObj),
     (''__module__'', PObj)]"

fun sample_members :: "class_type \<Rightarrow> (string \<times> pyval) list" where
  "sample_members Ecodes =
     sample_ecodes_1 @ sample_ecodes_2 @ sample_ecodes_3 @ sample_ecodes_4 @
     sample_ecodes_5 @ sample_ecodes_6 @ sample_ecodes_7 @ sample_ecodes_8 @
     sample_ecodes_9"
| "sample_members Keycode =
     sample_Keycode_1 @ sample_Keycode_2 @ sample_Keycode_3 @ sample_Keycode_4 @
     sample_Keycode_5"
| "sample_members ConsumerControlCode =
     sample_ConsumerControlCode_1 @ sample_ConsumerControlCode_2 @
     sample_ConsumerControlCode_3 @ sample_ConsumerControlCode_4 @
     sample_ConsumerControlCode_5"
| "sample_members MouseButton =
     sample_MouseButton_1"

text \<open>
  The namespace with the given members: \<^verbatim>\<open>dir\<close> lists their names, \<^verbatim>\<open>getattr\<close> finds a
  member by its name and returns \<^verbatim>\<open>None\<close> for any other name. The module only reads
  constants that are integer members; for any other name \<open>attr\<close> is 0 here.
\<close>

definition namespace_of :: "(string \<times> pyval) list \<Rightarrow> namespace" where
  "namespace_of members =
     \<lparr>attr = (\<lambda>n. case map_of members n of Some (PInt i) \<Rightarrow> i | _ \<Rightarrow> 0),
      py_dir = map fst members,
      py_getattr = (\<lambda>n. case map_of members n of Some v \<Rightarrow> v | None \<Rightarrow> PNone)\<rparr>"

definition sample_env :: env where
  "sample_env c = namespace_of (sample_members c)"

text \<open>An entry of the table looked up in the sample namespaces.\<close>

definition sample_entry :: "string \<times> class_type \<times> string \<Rightarrow> pyval option \<times> pyval option" where
  "sample_entry e =
     (case e of (k, c, v) \<Rightarrow> (map_of (sample_members Ecodes) k, map_of (sample_members c) v))"

text \<open>
  The three sections of the table in the sample environment: the scan code and the usage
  id of every entry, in the order of the entries.
\<close>

definition sample_keyboard_pairs :: "(int \<times> int) list" where
  "sample_keyboard_pairs =
    [(30, 4), (48, 5), (46, 6), (32, 7), (18, 8), (33, 9), (34, 10), (35, 11),
     (23, 12), (36, 13), (37, 14), (38, 15), (50, 16), (49, 17), (24, 18), (25, 19),
     (16, 20), (19, 21), (31, 22), (20, 23), (22, 24), (47, 25), (17, 26), (45, 27),
     (21, 28), (44, 29), (2, 30), (3, 31), (4, 32), (5, 33), (6, 34), (7, 35),
     (8, 36), (9, 37), (10, 38), (11, 39), (28, 40), (1, 41), (14, 42), (15, 43),
     (57, 44), (12, 45), (13, 46), (26, 47), (27, 48), (43, 50), (39, 51), (40, 52),
     (41, 53), (51, 54), (52, 55), (53, 56), (58, 57), (59, 58), (60, 59), (61, 60),
     (62, 61), (63, 62), (64, 63), (65, 64), (66, 65), (67, 66), (68, 67), (87, 68),
     (88, 69), (99, 70), (70, 71), (119, 72), (110, 73), (102, 74), (104, 75), (111, 76),
     (107, 77), (109, 78), (106, 79), (105, 80), (108, 81), (103, 82), (69, 83), (98, 84),
     (55, 85), (74, 86), (78, 87), (96, 88), (79, 89), (80, 90), (81, 91), (75, 92),
     (76, 93), (77, 94), (71, 95), (72, 96), (73, 97), (82, 98), (83, 99), (86, 100),
     (127, 101), (116, 102), (117, 103), (121, 133), (183, 104), (184, 105), (185, 106), (186, 107),
     (187, 108), (188, 109), (189, 110), (190, 111), (191, 112), (192, 113), (193, 114), (194, 115),
     (29, 224), (42, 225), (56, 226), (125, 227), (97, 228), (54, 229), (100, 230), (126, 231)]"

definition sample_mouse_pairs :: "(int \<times> int) list" where
  "sample_mouse_pairs =
    [(272, 1), (273, 2), (274, 4)]"

definition sample_consumer_pairs :: "(int \<times> int) list" where
  "sample_consumer_pairs =
    [(116, 48), (408, 49), (142, 50), (256, 54), (139, 64), (353, 65), (358, 445), (370, 97),
     (379, 146), (212, 101), (398, 105), (399, 106), (401, 107), (400, 108), (375, 109), (225, 111),
     (224, 112), (431, 114), (592, 115), (593, 116), (244, 117), (587, 118), (588, 119), (589, 120),
     (230, 121), (229, 122), (228, 124), (241, 130), (405, 131), (376, 136), (377, 137), (150, 406),
     (389, 139), (169, 140), (362, 141), (416, 142), (417, 143), (396, 144), (383, 145), (386, 147),
     (174, 516), (138, 422), (384, 150), (378, 151), (381, 152), (366, 154), (402, 156), (403, 157),
     (380, 160), (207, 176), (119, 177), (167, 178), (208, 179), (168, 180), (163, 181), (165, 182),
     (166, 183), (161, 184), (439, 188), (410, 185), (409, 245), (164, 205), (582, 207), (586, 216),
     (585, 217), (113, 226), (209, 229), (115, 233), (114, 234), (576, 385), (156, 554), (171, 387),
     (421, 388), (422, 389), (423, 390), (424, 391), (425, 392), (426, 393), (155, 394), (427, 395),
     (428, 396), (429, 397), (397, 398), (577, 399), (578, 400), (219, 401), (140, 402), (387, 403),
     (144, 436), (216, 409), (433, 412), (152, 414), (579, 415), (580, 418), (407, 419), (412, 420),
     (235, 423), (432, 427), (374, 430), (581, 433), (442, 438), (392, 439), (393, 440), (430, 444),
     (583, 459), (181, 513), (134, 514), (206, 515), (234, 519), (130, 521), (131, 538), (133, 539),
     (137, 540), (135, 541), (136, 543), (217, 545), (354, 546), (172, 547), (158, 548), (159, 549),
     (128, 550), (173, 551), (418, 557), (419, 558), (420, 559), (372, 562), (177, 563), (178, 564),
     (176, 573), (223, 607), (182, 633), (232, 649), (233, 651), (231, 652), (584, 669), (204, 674),
     (608, 711), (609, 712), (610, 713), (611, 714), (612, 715), (613, 716), (120, 671)]"

text \<open>An environment in which every constant is 7, so that the two sets overlap.\<close>

definition overlap_env :: env where
  "overlap_env c = \<lparr>attr = (\<lambda>n. 7), py_dir = [], py_getattr = (\<lambda>n. PNone)\<rparr>"

text \<open>
  The sample environment with a \<^verbatim>\<open>Keycode\<close> class that has no docstring: \<^verbatim>\<open>dir\<close> still lists
  \<^verbatim>\<open>__doc__\<close>, and its value is \<^verbatim>\<open>None\<close>. This is also what every class looks like when the
  interpreter strips docstrings (\<^verbatim>\<open>python -OO\<close>). The other namespaces are those of the sample.
\<close>

definition undocumented_Keycode_5 :: "(string \<times> pyval) list" where
  "undocumented_Keycode_5 =
    [(''__dict__'', PObj),
     (''__doc__'', PNone),
     (''__init__'', PObj),
     (''__module__'', PObj),
     (''modifier_bit'', PObj)]"

definition undocumented_Keycode :: "(string \<times> pyval) list" where
  "undocumented_Keycode =
     sample_Keycode_1 @ sample_Keycode_2 @ sample_Keycode_3 @ sample_Keycode_4 @
     undocumented_Keycode_5"

definition undocumented_env :: env where
  "undocumented_env c =
     (if c = Keycode then namespace_of undocumented_Keycode else sample_env c)"


subsection \<open>Comparing names by rewriting\<close>

text \<open>
  Equality of two names, as a constant of its own: its rewrite rules compare two literal
  strings character by character and stop at the first difference.
\<close>

definition str_eq :: "string \<Rightarrow> string \<Rightarrow> bool" where
  "str_eq a b \<longleftrightarrow> a = b"


section \<open>Lemmas\<close>


subsection \<open>Dictionaries\<close>

lemma fold_upd_map_of:
  "fold (\<lambda>kv m. m(fst kv \<mapsto> snd kv)) kvs m0 = m0 ++ map_of (rev kvs)"
proof (induction kvs arbitrary: m0)
  case Nil
  show ?case by simp
next
  case (Cons kv kvs)
  have "fold (\<lambda>kv m. m(fst kv \<mapsto> snd kv)) (kv # kvs) m0 =
        fold (\<lambda>kv m. m(fst kv \<mapsto> snd kv)) kvs (m0(fst kv \<mapsto> snd kv))"
    by simp
  also have "\<dots> = (m0(fst kv \<mapsto> snd kv)) ++ map_of (rev kvs)"
    by (rule Cons.IH)
  also have "\<dots> = m0 ++ ([fst kv \<mapsto> snd kv] ++ map_of (rev kvs))"
    by (rule ext) (simp add: map_add_def split: option.splits)
  also have "[fst kv \<mapsto> snd kv] ++ map_of (rev kvs) = map_of (rev (kv # kvs))"
    by (cases kv) simp
  finally show ?case .
qed

lemma dict_of_map_of: "dict_of kvs = map_of (rev kvs)"
  by (simp add: dict_of_def case_prod_unfold fold_upd_map_of)

lemma dom_dict_of: "dom (dict_of kvs) = fst ` set kvs"
  by (simp add: dict_of_map_of dom_map_of_conv_image_fst)

lemma dict_of_append:
  "dict_of (xs @ ys) k = (case dict_of ys k of Some v \<Rightarrow> Some v | None \<Rightarrow> dict_of xs k)"
  by (simp add: dict_of_map_of map_add_def split: option.splits)

lemma dict_of_SomeD: "dict_of kvs k = Some v \<Longrightarrow> (k, v) \<in> set kvs"
  by (auto simp: dict_of_map_of dest: map_of_SomeD)

lemma dict_of_None_iff: "dict_of kvs k = None \<longleftrightarrow> k \<notin> fst ` set kvs"
  using dom_dict_of [of kvs] by (metis domIff)

subsection \<open>The caches\<close>

lemma lru_cache_value:
  assumes "\<forall>(k', v) \<in> set cache. v = f k'"
  shows "fst (lru_cache n f k cache) = f k"
  using assms by (auto simp: lru_cache_def Let_def split: option.splits dest: map_of_SomeD)

lemma lru_cache_entries:
  assumes "\<forall>(k', v) \<in> set cache. v = f k'"
  shows "\<forall>(k', v) \<in> set (snd (lru_cache n f k cache)). v = f k'"
proof (cases "map_of cache k")
  case None
  have "set (take n ((k, f k) # cache)) \<subseteq> set ((k, f k) # cache)"
    by (rule set_take_subset)
  with assms None show ?thesis
    by (auto simp: lru_cache_def Let_def simp del: take_Cons')
next
  case (Some v)
  with assms show ?thesis
    by (auto simp: lru_cache_def dest: map_of_SomeD)
qed

lemma cached_getattr_value:
  "cache_ok env s \<Longrightarrow> fst (cached_getattr env t a s) = py_getattr (env t) a"
  using lru_cache_value [of "getattr_cache s" "\<lambda>(t, a). py_getattr (env t) a" 512 "(t, a)"]
  by (simp add: cached_getattr_def cache_ok_def split_beta)

lemma cached_getattr_ok:
  "cache_ok env s \<Longrightarrow> cache_ok env (snd (cached_getattr env t a s))"
  using lru_cache_entries [of "getattr_cache s" "\<lambda>(t, a). py_getattr (env t) a" 512 "(t, a)"]
  by (simp add: cached_getattr_def cache_ok_def split_beta)

lemma cached_dir_value:
  "cache_ok env s \<Longrightarrow> fst (cached_dir env t s) = py_dir (env t)"
  using lru_cache_value [of "dir_cache s" "\<lambda>t. py_dir (env t)" 128 t]
  by (simp add: cached_dir_def cache_ok_def split_beta)

lemma cached_dir_ok:
  "cache_ok env s \<Longrightarrow> cache_ok env (snd (cached_dir env t s))"
  using lru_cache_entries [of "dir_cache s" "\<lambda>t. py_dir (env t)" 128 t]
  by (simp add: cached_dir_def cache_ok_def split_beta)

lemma cache_ok_init: "cache_ok env init_state"
  by (simp add: cache_ok_def init_state_def)

lemma cache_ok_debug: "cache_ok env (debug r s) = cache_ok env s"
  by (simp add: cache_ok_def debug_def)

subsection \<open>The resolvers return what a search without caches returns\<close>

lemma find_key_name_loop_value:
  "cache_ok env s \<Longrightarrow>
   fst (find_key_name_loop env sc as s) =
     find (\<lambda>a. py_eq (py_getattr (env Ecodes) a) (Some sc) \<and> startswith a [''KEY_'', ''BTN_'']) as
   \<and> cache_ok env (snd (find_key_name_loop env sc as s))"
proof (induction as arbitrary: s)
  case Nil
  then show ?case by simp
next
  case (Cons a as)
  let ?r = "cached_getattr env Ecodes a s"
  have v: "fst ?r = py_getattr (env Ecodes) a" and ok: "cache_ok env (snd ?r)"
    using Cons.prems by (simp_all add: cached_getattr_value cached_getattr_ok)
  show ?case
    using Cons.IH [OF ok] v ok by (simp add: split_beta)
qed

lemma find_usage_name_loop_value:
  "cache_ok env s \<Longrightarrow>
   fst (find_usage_name_loop env c u as s) = find (\<lambda>a. py_eq (py_getattr (env c) a) u) as
   \<and> cache_ok env (snd (find_usage_name_loop env c u as s))"
proof (induction as arbitrary: s)
  case Nil
  then show ?case by simp
next
  case (Cons a as)
  let ?r = "cached_getattr env c a s"
  have v: "fst ?r = py_getattr (env c) a" and ok: "cache_ok env (snd ?r)"
    using Cons.prems by (simp_all add: cached_getattr_value cached_getattr_ok)
  show ?case
    using Cons.IH [OF ok] v ok by (simp add: split_beta)
qed

lemma find_key_name_value:
  assumes "cache_ok env s"
  shows "fst (find_key_name env ev s) =
           find (\<lambda>a. py_eq (py_getattr (env Ecodes) a) (Some (scancode ev))
                     \<and> startswith a [''KEY_'', ''BTN_'']) (py_dir (env Ecodes))"
    and "cache_ok env (snd (find_key_name env ev s))"
  using find_key_name_loop_value [OF cached_dir_ok [OF assms, of Ecodes],
      where sc = "scancode ev" and as = "py_dir (env Ecodes)"]
    cached_dir_value [OF assms, of Ecodes]
  by (simp_all add: find_key_name_def split_beta)

lemma find_usage_name_value:
  assumes "cache_ok env s"
  shows "fst (find_usage_name env ev u s) =
           find (\<lambda>a. py_eq (py_getattr (env (get_hid_code_type env ev)) a) u)
             (py_dir (env (get_hid_code_type env ev)))"
    and "cache_ok env (snd (find_usage_name env ev u s))"
  using find_usage_name_loop_value [OF cached_dir_ok [OF assms, of "get_hid_code_type env ev"],
      where c = "get_hid_code_type env ev" and u = u
        and as = "py_dir (env (get_hid_code_type env ev))"]
    cached_dir_value [OF assms, of "get_hid_code_type env ev"]
  by (simp_all add: find_usage_name_def split_beta Let_def)

lemma evdev_to_hid_value:
  assumes "cache_ok env s"
  shows "fst (evdev_to_hid env ev s) =
           (EVDEV_TO_HID env (scancode ev),
            find (\<lambda>a. py_eq (py_getattr (env (get_hid_code_type env ev)) a)
                        (EVDEV_TO_HID env (scancode ev)))
              (py_dir (env (get_hid_code_type env ev))))"
    and "cache_ok env (snd (evdev_to_hid env ev s))"
proof -
  have ok1: "cache_ok env (snd (find_key_name env ev s))"
    using assms by (rule find_key_name_value)
  show "fst (evdev_to_hid env ev s) =
           (EVDEV_TO_HID env (scancode ev),
            find (\<lambda>a. py_eq (py_getattr (env (get_hid_code_type env ev)) a)
                        (EVDEV_TO_HID env (scancode ev)))
              (py_dir (env (get_hid_code_type env ev))))"
    using find_usage_name_value(1) [OF ok1, of ev "EVDEV_TO_HID env (scancode ev)"]
    by (simp add: evdev_to_hid_def split_beta Let_def)
  show "cache_ok env (snd (evdev_to_hid env ev s))"
    using find_usage_name_value(2) [OF ok1, of ev "EVDEV_TO_HID env (scancode ev)"]
    by (cases "EVDEV_TO_HID env (scancode ev)")
       (simp_all add: evdev_to_hid_def split_beta Let_def cache_ok_debug)
qed

lemma cache_ok_after_call: "cache_ok env s \<Longrightarrow> cache_ok env (after_call env s c)"
  by (cases c)
     (simp_all add: evdev_to_hid_value find_key_name_value find_usage_name_value
        cached_getattr_ok cached_dir_ok)

lemma cache_ok_foldl:
  "cache_ok env s \<Longrightarrow> cache_ok env (foldl (after_call env) s calls)"
  by (induction calls arbitrary: s) (simp_all add: cache_ok_after_call)

lemma cache_ok_after_calls: "cache_ok env (after_calls env calls)"
  unfolding after_calls_def by (rule cache_ok_foldl) (rule cache_ok_init)

lemma after_calls_Nil: "after_calls env [] = init_state"
  by (simp add: after_calls_def)

subsection \<open>Evaluating the literal tables\<close>

lemma Cons_eq_if: "(x # xs = y # ys) = (if x = y then xs = ys else False)"
  by simp

lemma filter_weak_cong: "filter P xs = filter P xs"
  by (rule refl)

lemma Cons_same: "(x # xs = x # ys) = (xs = ys)"
  by simp

lemma char_eq_if:
  "(Char a0 a1 a2 a3 a4 a5 a6 a7 = Char b0 b1 b2 b3 b4 b5 b6 b7) =
     (if a0 = b0 then if a1 = b1 then if a2 = b2 then if a3 = b3 then
      if a4 = b4 then if a5 = b5 then if a6 = b6 then a7 = b7
      else False else False else False else False else False else False else False)"
  by simp

lemmas string_eq = Cons_same Cons_eq_if list.distinct char_eq_if simp_thms if_True if_False

lemma consumer_names: "map fst consumer_items = CONSUMER_KEYS_names"
  unfolding consumer_items_def CONSUMER_KEYS_names_def
  by (simp only: list.map fst_conv)

lemma mouse_names: "map fst mouse_items = MOUSE_BUTTONS_names"
  unfolding mouse_items_def MOUSE_BUTTONS_names_def
  by (simp only: list.map fst_conv)

lemma keyboard_class: "list_all (\<lambda>(k, c, v). c = Keycode) keyboard_items"
  unfolding keyboard_items_def
  by (simp only: list.pred_inject case_prod_conv simp_thms)

lemma mouse_class: "list_all (\<lambda>(k, c, v). c = MouseButton) mouse_items"
  unfolding mouse_items_def
  by (simp only: list.pred_inject case_prod_conv simp_thms)

lemma consumer_class: "list_all (\<lambda>(k, c, v). c = ConsumerControlCode) consumer_items"
  unfolding consumer_items_def
  by (simp only: list.pred_inject case_prod_conv simp_thms)

lemma power_entries:
  "filter (\<lambda>(k, c, v). k = ''KEY_POWER'') EVDEV_TO_HID_items =
     [(''KEY_POWER'', Keycode, ''POWER''), (''KEY_POWER'', ConsumerControlCode, ''POWER'')]"
  unfolding EVDEV_TO_HID_items_def filter_append
  unfolding keyboard_items_def mouse_items_def consumer_items_def
  by (simp only: filter.simps case_prod_conv string_eq append.simps
        cong: if_weak_cong filter_weak_cong)

lemma pause_entries:
  "filter (\<lambda>(k, c, v). k = ''KEY_PAUSE'') EVDEV_TO_HID_items =
     [(''KEY_PAUSE'', Keycode, ''PAUSE''), (''KEY_PAUSE'', ConsumerControlCode, ''PAUSE'')]"
  unfolding EVDEV_TO_HID_items_def filter_append
  unfolding keyboard_items_def mouse_items_def consumer_items_def
  by (simp only: filter.simps case_prod_conv string_eq append.simps
        cong: if_weak_cong filter_weak_cong)

subsection \<open>The table, section by section\<close>

lemma fst_entry: "fst (entry env e) = attr (env Ecodes) (fst e)"
  by (simp add: entry_def split_beta)

lemma consumer_keys: "fst ` set (map (entry env) consumer_items) = CONSUMER_KEYS env"
proof -
  have "map fst (map (entry env) consumer_items) = map (attr (env Ecodes)) (map fst consumer_items)"
    by (simp add: fst_entry)
  then have "set (map fst (map (entry env) consumer_items)) = CONSUMER_KEYS env"
    by (simp only: consumer_names CONSUMER_KEYS_def)
  then show ?thesis by (simp add: image_image)
qed

lemma mouse_keys: "fst ` set (map (entry env) mouse_items) = MOUSE_BUTTONS env"
proof -
  have "map fst (map (entry env) mouse_items) = map (attr (env Ecodes)) (map fst mouse_items)"
    by (simp add: fst_entry)
  then have "set (map fst (map (entry env) mouse_items)) = MOUSE_BUTTONS env"
    by (simp only: mouse_names MOUSE_BUTTONS_def)
  then show ?thesis by (simp add: image_image)
qed

lemma table_by_section:
  "EVDEV_TO_HID env sc =
     (case dict_of (map (entry env) consumer_items) sc of
        Some u \<Rightarrow> Some u
      | None \<Rightarrow>
          (case dict_of (map (entry env) mouse_items) sc of
             Some u \<Rightarrow> Some u
           | None \<Rightarrow> dict_of (map (entry env) keyboard_items) sc))"
  by (simp add: EVDEV_TO_HID_def EVDEV_TO_HID_items_def dict_of_append split: option.splits)

lemma consumer_lookup: "dict_of (map (entry env) consumer_items) sc = None \<longleftrightarrow> sc \<notin> CONSUMER_KEYS env"
  by (simp only: dict_of_None_iff consumer_keys)

lemma mouse_lookup: "dict_of (map (entry env) mouse_items) sc = None \<longleftrightarrow> sc \<notin> MOUSE_BUTTONS env"
  by (simp only: dict_of_None_iff mouse_keys)

lemma dom_table:
  "dom (EVDEV_TO_HID env) =
     CONSUMER_KEYS env \<union> MOUSE_BUTTONS env \<union> fst ` set (map (entry env) keyboard_items)"
  unfolding EVDEV_TO_HID_def EVDEV_TO_HID_items_def dom_dict_of
  using consumer_keys [of env] mouse_keys [of env] by (auto simp: image_Un)

text \<open>
  The entry that wins a lookup belongs to the class the classifier picks: the classifier
  asks the consumer set first and the mouse set second, and the table holds the consumer
  section last and the mouse section before it.
\<close>

lemma section_entry:
  assumes "dict_of (map (entry env) items) sc = Some u"
    and "list_all (\<lambda>(k, c, v). c = cl) items"
  shows "\<exists>k v. (k, cl, v) \<in> set items \<and> attr (env Ecodes) k = sc \<and> attr (env cl) v = u"
proof -
  from assms(1) have "(sc, u) \<in> set (map (entry env) items)"
    by (rule dict_of_SomeD)
  then obtain k c v where e: "(k, c, v) \<in> set items" and "entry env (k, c, v) = (sc, u)"
    by auto
  moreover from assms(2) e have "c = cl"
    by (auto simp: list_all_iff)
  ultimately show ?thesis
    by (auto simp: entry_def)
qed

lemma winning_entry:
  assumes "EVDEV_TO_HID env (scancode ev) = Some u"
  shows "\<exists>k v. (k, get_hid_code_type env ev, v) \<in> set EVDEV_TO_HID_items
           \<and> attr (env Ecodes) k = scancode ev
           \<and> attr (env (get_hid_code_type env ev)) v = u"
proof -
  let ?sc = "scancode ev"
  consider (consumer) "?sc \<in> CONSUMER_KEYS env"
    | (mouse) "?sc \<notin> CONSUMER_KEYS env" "?sc \<in> MOUSE_BUTTONS env"
    | (keyboard) "?sc \<notin> CONSUMER_KEYS env" "?sc \<notin> MOUSE_BUTTONS env"
    by blast
  then show ?thesis
  proof cases
    case consumer
    then obtain u' where u': "dict_of (map (entry env) consumer_items) ?sc = Some u'"
      using consumer_lookup [of env ?sc] by auto
    with assms have "u' = u" by (simp add: table_by_section)
    with u' section_entry [OF _ consumer_class] consumer show ?thesis
      by (fastforce simp: get_hid_code_type_def is_consumer_key_def EVDEV_TO_HID_items_def)
  next
    case mouse
    then have none: "dict_of (map (entry env) consumer_items) ?sc = None"
      by (simp add: consumer_lookup)
    from mouse obtain u' where u': "dict_of (map (entry env) mouse_items) ?sc = Some u'"
      using mouse_lookup [of env ?sc] by auto
    with assms none have "u' = u" by (simp add: table_by_section)
    with u' section_entry [OF _ mouse_class] mouse show ?thesis
      by (fastforce simp: get_hid_code_type_def is_consumer_key_def is_mouse_button_def
            EVDEV_TO_HID_items_def)
  next
    case keyboard
    then have "dict_of (map (entry env) keyboard_items) ?sc = Some u"
      using assms by (simp add: table_by_section consumer_lookup [THEN iffD2] mouse_lookup [THEN iffD2])
    with section_entry [OF _ keyboard_class] keyboard show ?thesis
      by (fastforce simp: get_hid_code_type_def is_consumer_key_def is_mouse_button_def
            EVDEV_TO_HID_items_def)
  qed
qed


lemma dict_of_distinct:
  assumes "distinct (map fst ps)" and "(k, v) \<in> set ps"
  shows "dict_of ps k = Some v"
proof -
  have "distinct (map fst (rev ps))"
    using assms(1) by (simp add: rev_map [symmetric])
  moreover have "(k, v) \<in> set (rev ps)"
    using assms(2) by simp
  ultimately show ?thesis
    unfolding dict_of_map_of by (rule map_of_is_SomeI)
qed

lemma dict_of_filter:
  assumes "\<And>e. e \<in> set xs \<Longrightarrow> \<not> Q e \<Longrightarrow> fst (f e) \<noteq> sc"
  shows "dict_of (map f (filter Q xs)) sc = dict_of (map f xs) sc"
  using assms
proof (induction xs rule: rev_induct)
  case Nil
  show ?case by simp
next
  case (snoc x xs)
  then have IH: "dict_of (map f (filter Q xs)) sc = dict_of (map f xs) sc"
    by simp
  show ?case
  proof (cases "Q x")
    case True
    with IH show ?thesis
      by (simp add: dict_of_append split: option.splits)
  next
    case False
    with snoc.prems have "fst (f x) \<noteq> sc" by simp
    then have "dict_of [f x] sc = None"
      by (simp add: dict_of_None_iff)
    with False IH show ?thesis
      by (simp add: dict_of_append)
  qed
qed

lemma consumer_member:
  assumes "(k, ConsumerControlCode, v) \<in> set EVDEV_TO_HID_items"
  shows "(k, ConsumerControlCode, v) \<in> set consumer_items"
  using assms keyboard_class mouse_class
  by (auto simp: EVDEV_TO_HID_items_def list_all_iff)

lemma power_consumer: "(''KEY_POWER'', ConsumerControlCode, ''POWER'') \<in> set consumer_items"
proof -
  have "(''KEY_POWER'', ConsumerControlCode, ''POWER'')
          \<in> set (filter (\<lambda>(k, c, v). k = ''KEY_POWER'') EVDEV_TO_HID_items)"
    unfolding power_entries by simp
  then show ?thesis
    by (intro consumer_member) simp
qed

lemma pause_consumer: "(''KEY_PAUSE'', ConsumerControlCode, ''PAUSE'') \<in> set consumer_items"
proof -
  have "(''KEY_PAUSE'', ConsumerControlCode, ''PAUSE'')
          \<in> set (filter (\<lambda>(k, c, v). k = ''KEY_PAUSE'') EVDEV_TO_HID_items)"
    unfolding pause_entries by simp
  then show ?thesis
    by (intro consumer_member) simp
qed

lemma consumer_item_key:
  assumes "(k, c, v) \<in> set consumer_items"
  shows "attr (env Ecodes) k \<in> CONSUMER_KEYS env"
proof -
  from assms have "entry env (k, c, v) \<in> set (map (entry env) consumer_items)"
    by simp
  then have "fst (entry env (k, c, v)) \<in> fst ` set (map (entry env) consumer_items)"
    by (rule imageI)
  then show ?thesis
    by (simp only: consumer_keys fst_entry fst_conv)
qed

lemma consumer_item_lookup:
  assumes "distinct (map (attr (env Ecodes)) CONSUMER_KEYS_names)"
    and "(k, c, v) \<in> set consumer_items"
  shows "EVDEV_TO_HID env (attr (env Ecodes) k) = Some (attr (env c) v)"
proof -
  have "map fst (map (entry env) consumer_items) = map (attr (env Ecodes)) (map fst consumer_items)"
    by (simp add: fst_entry)
  with assms(1) have "distinct (map fst (map (entry env) consumer_items))"
    by (simp only: consumer_names)
  moreover have "(attr (env Ecodes) k, attr (env c) v) \<in> set (map (entry env) consumer_items)"
    using assms(2) by (force simp: entry_def)
  ultimately have "dict_of (map (entry env) consumer_items) (attr (env Ecodes) k) = Some (attr (env c) v)"
    by (rule dict_of_distinct)
  then show ?thesis
    by (simp add: table_by_section)
qed

lemma table_without_shadowed:
  "EVDEV_TO_HID env =
     dict_of (map (entry env)
       (filter (\<lambda>(k, c, v). \<not> (c = Keycode \<and> (k = ''KEY_POWER'' \<or> k = ''KEY_PAUSE'')))
          EVDEV_TO_HID_items))"
proof (rule ext)
  fix sc
  let ?Q = "\<lambda>(k, c, v). \<not> (c = Keycode \<and> (k = ''KEY_POWER'' \<or> k = ''KEY_PAUSE''))"
  let ?rest = "map (entry env) (mouse_items @ consumer_items)"
  have m: "filter ?Q mouse_items = mouse_items"
    using mouse_class by (intro filter_True) (auto simp: list_all_iff)
  have c: "filter ?Q consumer_items = consumer_items"
    using consumer_class by (intro filter_True) (auto simp: list_all_iff)
  have split: "map (entry env) (filter ?Q EVDEV_TO_HID_items) =
      map (entry env) (filter ?Q keyboard_items) @ ?rest"
    by (simp only: EVDEV_TO_HID_items_def filter_append map_append m c)
  have "dict_of (map (entry env) (filter ?Q keyboard_items) @ ?rest) sc =
        dict_of (map (entry env) keyboard_items @ ?rest) sc"
  proof (cases "dict_of ?rest sc")
    case (Some u)
    then show ?thesis by (simp only: dict_of_append option.case)
  next
    case None
    then have "sc \<notin> fst ` set ?rest"
      by (rule dict_of_None_iff [THEN iffD1])
    moreover have "fst ` set (map (entry env) consumer_items) \<subseteq> fst ` set ?rest"
      by (intro image_mono) auto
    ultimately have notin: "sc \<notin> CONSUMER_KEYS env"
      unfolding consumer_keys by blast
    have "dict_of (map (entry env) (filter ?Q keyboard_items)) sc =
          dict_of (map (entry env) keyboard_items) sc"
    proof (rule dict_of_filter)
      fix e assume "e \<in> set keyboard_items" and "\<not> ?Q e"
      then have "fst e = ''KEY_POWER'' \<or> fst e = ''KEY_PAUSE''"
        by (auto simp: split_beta)
      then have "attr (env Ecodes) (fst e) \<in> CONSUMER_KEYS env"
        using consumer_item_key [OF power_consumer, of env]
          consumer_item_key [OF pause_consumer, of env] by auto
      with notin show "fst (entry env e) \<noteq> sc"
        by (auto simp: fst_entry)
    qed
    with None show ?thesis by (simp only: dict_of_append option.case)
  qed
  then show "EVDEV_TO_HID env sc = dict_of (map (entry env) (filter ?Q EVDEV_TO_HID_items)) sc"
    by (simp only: split) (simp add: EVDEV_TO_HID_def EVDEV_TO_HID_items_def)
qed

lemma find_first:
  assumes "x \<in> set xs" and "P x"
  shows "\<exists>y. find P xs = Some y \<and> y \<in> set xs \<and> P y"
proof (cases "find P xs")
  case None
  with assms show ?thesis by (auto simp: find_None_iff)
next
  case (Some y)
  then show ?thesis by (auto simp: find_Some_iff)
qed

lemma py_eq_Some: "py_eq v (Some u) \<longleftrightarrow> v = PInt u"
  by (cases v) auto

lemma py_eq_None: "py_eq v None \<longleftrightarrow> v = PNone"
  by (cases v) auto


lemma log_cached_getattr: "log (snd (cached_getattr env t a s)) = log s"
  by (simp add: cached_getattr_def split_beta)

lemma log_cached_dir: "log (snd (cached_dir env t s)) = log s"
  by (simp add: cached_dir_def split_beta)

lemma log_find_key_name_loop: "log (snd (find_key_name_loop env sc as s)) = log s"
  by (induction as arbitrary: s) (simp_all add: split_beta log_cached_getattr)

lemma log_find_usage_name_loop: "log (snd (find_usage_name_loop env c u as s)) = log s"
  by (induction as arbitrary: s) (simp_all add: split_beta log_cached_getattr)

lemma log_find_key_name: "log (snd (find_key_name env ev s)) = log s"
  by (simp add: find_key_name_def split_beta log_find_key_name_loop log_cached_dir)

lemma log_find_usage_name: "log (snd (find_usage_name env ev u s)) = log s"
  by (simp add: find_usage_name_def split_beta Let_def log_find_usage_name_loop log_cached_dir)

subsection \<open>The sample environment\<close>

text \<open>Looking a name up in the sample namespaces, one part of the member list at a time.\<close>

lemma str_eq_simps:
  "str_eq [] [] = True"
  "str_eq [] (y # ys) = False"
  "str_eq (x # xs) [] = False"
  "str_eq (x # xs) (x # ys) = str_eq xs ys"
  "str_eq (Char a0 a1 a2 a3 a4 a5 a6 a7 # xs) (Char b0 b1 b2 b3 b4 b5 b6 b7 # ys) =
     (if a0 = b0 then if a1 = b1 then if a2 = b2 then if a3 = b3 then
      if a4 = b4 then if a5 = b5 then if a6 = b6 then if a7 = b7 then str_eq xs ys
      else False else False else False else False else False else False else False else False)"
  by (auto simp: str_eq_def)

lemma str_eq_weak_cong: "str_eq a b = str_eq a b"
  by (rule refl)

lemma map_of_str:
  "map_of ((l, v) # ps) k = (if str_eq l k then Some v else map_of ps k)"
  "map_of [] k = None"
  by (simp_all add: str_eq_def)

lemma map_of_weak_cong: "map_of ps k = map_of ps k"
  by (rule refl)

lemma map_of_append_case:
  "map_of (xs @ ys) k = (case map_of xs k of Some v \<Rightarrow> Some v | None \<Rightarrow> map_of ys k)"
  by (simp add: map_add_def split: option.splits)

lemmas sample_parts =
  sample_members.simps [THEN arg_cong [where f = "\<lambda>l. map_of l k" for k]]
  sample_ecodes_1_def [THEN arg_cong [where f = "\<lambda>l. map_of l k" for k]]
  sample_ecodes_2_def [THEN arg_cong [where f = "\<lambda>l. map_of l k" for k]]
  sample_ecodes_3_def [THEN arg_cong [where f = "\<lambda>l. map_of l k" for k]]
  sample_ecodes_4_def [THEN arg_cong [where f = "\<lambda>l. map_of l k" for k]]
  sample_ecodes_5_def [THEN arg_cong [where f = "\<lambda>l. map_of l k" for k]]
  sample_ecodes_6_def [THEN arg_cong [where f = "\<lambda>l. map_of l k" for k]]
  sample_ecodes_7_def [THEN arg_cong [where f = "\<lambda>l. map_of l k" for k]]
  sample_ecodes_8_def [THEN arg_cong [where f = "\<lambda>l. map_of l k" for k]]
  sample_ecodes_9_def [THEN arg_cong [where f = "\<lambda>l. map_of l k" for k]]
  sample_Keycode_1_def [THEN arg_cong [where f = "\<lambda>l. map_of l k" for k]]
  sample_Keycode_2_def [THEN arg_cong [where f = "\<lambda>l. map_of l k" for k]]
  sample_Keycode_3_def [THEN arg_cong [where f = "\<lambda>l. map_of l k" for k]]
  sample_Keycode_4_def [THEN arg_cong [where f = "\<lambda>l. map_of l k" for k]]
  sample_Keycode_5_def [THEN arg_cong [where f = "\<lambda>l. map_of l k" for k]]
  sample_ConsumerControlCode_1_def [THEN arg_cong [where f = "\<lambda>l. map_of l k" for k]]
  sample_ConsumerControlCode_2_def [THEN arg_cong [where f = "\<lambda>l. map_of l k" for k]]
  sample_ConsumerControlCode_3_def [THEN arg_cong [where f = "\<lambda>l. map_of l k" for k]]
  sample_ConsumerControlCode_4_def [THEN arg_cong [where f = "\<lambda>l. map_of l k" for k]]
  sample_ConsumerControlCode_5_def [THEN arg_cong [where f = "\<lambda>l. map_of l k" for k]]
  sample_MouseButton_1_def [THEN arg_cong [where f = "\<lambda>l. map_of l k" for k]]

lemmas sample_lookup =
  sample_parts map_of_append_case map_of_str str_eq_simps simp_thms if_True if_False option.case

lemma sample_keyboard_entries:
  "list_all2 (\<lambda>e (sc, u). sample_entry e = (Some (PInt sc), Some (PInt u)))
     keyboard_items sample_keyboard_pairs"
  unfolding keyboard_items_def sample_keyboard_pairs_def
  by (simp only: list_all2_Cons list_all2_Nil case_prod_conv sample_entry_def sample_lookup
        cong: map_of_weak_cong str_eq_weak_cong if_weak_cong option.case_cong_weak)

lemma sample_mouse_entries:
  "list_all2 (\<lambda>e (sc, u). sample_entry e = (Some (PInt sc), Some (PInt u)))
     mouse_items sample_mouse_pairs"
  unfolding mouse_items_def sample_mouse_pairs_def
  by (simp only: list_all2_Cons list_all2_Nil case_prod_conv sample_entry_def sample_lookup
        cong: map_of_weak_cong str_eq_weak_cong if_weak_cong option.case_cong_weak)

lemma sample_consumer_entries:
  "list_all2 (\<lambda>e (sc, u). sample_entry e = (Some (PInt sc), Some (PInt u)))
     consumer_items sample_consumer_pairs"
  unfolding consumer_items_def sample_consumer_pairs_def
  by (simp only: list_all2_Cons list_all2_Nil case_prod_conv sample_entry_def sample_lookup
        cong: map_of_weak_cong str_eq_weak_cong if_weak_cong option.case_cong_weak)

lemma sample_attr:
  "map_of (sample_members c) n = Some (PInt i) \<Longrightarrow> attr (sample_env c) n = i"
  by (simp add: sample_env_def namespace_of_def)

lemma sample_getattr:
  "map_of (sample_members c) n = Some v \<Longrightarrow> py_getattr (sample_env c) n = v"
  by (simp add: sample_env_def namespace_of_def)

lemma sample_dir:
  "map_of (sample_members c) n = Some v \<Longrightarrow> n \<in> set (py_dir (sample_env c))"
  by (auto simp: sample_env_def namespace_of_def dest: map_of_SomeD intro: rev_image_eqI)

lemma sample_section:
  assumes "list_all2 (\<lambda>e (sc, u). sample_entry e = (Some (PInt sc), Some (PInt u))) items pairs"
  shows "map (entry sample_env) items = pairs
       \<and> (\<forall>(k, c, v) \<in> set items.
             v \<in> set (py_dir (sample_env c))
             \<and> py_getattr (sample_env c) v = PInt (attr (sample_env c) v))"
  using assms
proof (induction rule: list_all2_induct)
  case Nil
  show ?case by simp
next
  case (Cons e items p pairs)
  obtain k c v where e: "e = (k, c, v)" by (cases e)
  obtain sc u where p: "p = (sc, u)" by (cases p)
  from Cons(1) have k: "map_of (sample_members Ecodes) k = Some (PInt sc)"
    and v: "map_of (sample_members c) v = Some (PInt u)"
    by (simp_all add: e p sample_entry_def)
  have "entry sample_env e = p"
    using k v by (simp add: e p entry_def sample_attr)
  moreover have "v \<in> set (py_dir (sample_env c))"
    and "py_getattr (sample_env c) v = PInt (attr (sample_env c) v)"
    using v by (simp_all add: sample_attr sample_getattr sample_dir)
  ultimately show ?case
    using Cons.IH by (simp add: e)
qed

lemma sample_table:
  "map (entry sample_env) keyboard_items = sample_keyboard_pairs"
  "map (entry sample_env) mouse_items = sample_mouse_pairs"
  "map (entry sample_env) consumer_items = sample_consumer_pairs"
  using sample_section [OF sample_keyboard_entries] sample_section [OF sample_mouse_entries]
    sample_section [OF sample_consumer_entries]
  by simp_all

lemma sample_reflects: "reflects sample_env"
  unfolding reflects_def EVDEV_TO_HID_items_def
  using sample_section [OF sample_keyboard_entries] sample_section [OF sample_mouse_entries]
    sample_section [OF sample_consumer_entries]
  by (simp only: set_append ball_Un) simp

lemma sample_lookups:
  "map_of (sample_members Ecodes) ''BTN'' = Some PObj"
  "map_of (sample_members Ecodes) ''BTN_0'' = Some (PInt 256)"
  "map_of (sample_members Ecodes) ''BTN_LEFT'' = Some (PInt 272)"
  "map_of (sample_members Ecodes) ''KEY_POWER'' = Some (PInt 116)"
  "map_of (sample_members Ecodes) ''KEY_PAUSE'' = Some (PInt 119)"
  "map_of (sample_members Ecodes) ''REL_X'' = Some (PInt 0)"
  "map_of (sample_members Ecodes) ''REL_Y'' = Some (PInt 1)"
  "map_of (sample_members Ecodes) ''REL_WHEEL'' = Some (PInt 8)"
  "map_of (sample_members Keycode) ''A'' = Some (PInt 4)"
  "map_of (sample_members ConsumerControlCode) ''POWER'' = Some (PInt 48)"
  "map_of (sample_members ConsumerControlCode) ''PAUSE'' = Some (PInt 177)"
  by (simp_all only: sample_lookup
        cong: map_of_weak_cong str_eq_weak_cong if_weak_cong option.case_cong_weak)

lemmas sample_attrs = sample_lookups(2-11) [THEN sample_attr]

lemmas sample_getattrs = sample_lookups [THEN sample_getattr]

text \<open>Looking a scan code up in a section of the evaluated table, from its last entry back.\<close>

lemma dict_of_Nil: "dict_of [] k = None"
  by (simp add: dict_of_def)

lemma dict_of_Cons:
  "dict_of (p # ps) k =
     (case dict_of ps k of Some v \<Rightarrow> Some v | None \<Rightarrow> if fst p = k then Some (snd p) else None)"
proof -
  have "dict_of [p] k = (if fst p = k then Some (snd p) else None)"
    by (cases p) (simp add: dict_of_map_of)
  with dict_of_append [of "[p]" ps k] show ?thesis
    by (simp split: option.splits)
qed

lemma dict_of_weak_cong: "k = k' \<Longrightarrow> dict_of ps k = dict_of ps k'"
  by simp

lemmas dict_eval =
  dict_of_Cons dict_of_Nil fst_conv snd_conv rel_simps simp_thms if_True if_False option.case

lemma sample_sections:
  "dict_of sample_consumer_pairs 30 = None"
  "dict_of sample_mouse_pairs 30 = None"
  "dict_of sample_keyboard_pairs 30 = Some 4"
  "dict_of sample_consumer_pairs 116 = Some 48"
  "dict_of sample_consumer_pairs 119 = Some 177"
  "dict_of sample_consumer_pairs 115 = Some 233"
  "dict_of sample_consumer_pairs 272 = None"
  "dict_of sample_mouse_pairs 272 = Some 1"
  "dict_of sample_consumer_pairs 248 = None"
  "dict_of sample_mouse_pairs 248 = None"
  "dict_of sample_keyboard_pairs 248 = None"
  unfolding sample_consumer_pairs_def sample_mouse_pairs_def sample_keyboard_pairs_def
  by (simp_all only: dict_eval cong: dict_of_weak_cong if_weak_cong option.case_cong_weak)

lemma sample_consumer_keys: "sc \<in> CONSUMER_KEYS sample_env \<longleftrightarrow> dict_of sample_consumer_pairs sc \<noteq> None"
  using consumer_lookup [of sample_env sc] by (simp only: sample_table) simp

lemma sample_mouse_buttons: "sc \<in> MOUSE_BUTTONS sample_env \<longleftrightarrow> dict_of sample_mouse_pairs sc \<noteq> None"
  using mouse_lookup [of sample_env sc] by (simp only: sample_table) simp

lemma sample_table_value:
  "EVDEV_TO_HID sample_env sc =
     (case dict_of sample_consumer_pairs sc of
        Some u \<Rightarrow> Some u
      | None \<Rightarrow>
          (case dict_of sample_mouse_pairs sc of
             Some u \<Rightarrow> Some u
           | None \<Rightarrow> dict_of sample_keyboard_pairs sc))"
  by (simp only: table_by_section sample_table)

lemma sample_table_at:
  "EVDEV_TO_HID sample_env 30 = Some 4"
  "EVDEV_TO_HID sample_env 116 = Some 48"
  "EVDEV_TO_HID sample_env 119 = Some 177"
  "EVDEV_TO_HID sample_env 272 = Some 1"
  "EVDEV_TO_HID sample_env 115 = Some 233"
  "EVDEV_TO_HID sample_env 248 = None"
  by (simp_all add: sample_table_value sample_sections)

lemma sample_classes:
  "get_hid_code_type sample_env \<lparr>scancode = 30, keystate = d\<rparr> = Keycode"
  "get_hid_code_type sample_env \<lparr>scancode = 272, keystate = d\<rparr> = MouseButton"
  "get_hid_code_type sample_env \<lparr>scancode = 115, keystate = d\<rparr> = ConsumerControlCode"
  "get_hid_code_type sample_env \<lparr>scancode = 116, keystate = d\<rparr> = ConsumerControlCode"
  "get_hid_code_type sample_env \<lparr>scancode = 248, keystate = d\<rparr> = Keycode"
  by (simp_all add: get_hid_code_type_def is_consumer_key_def is_mouse_button_def
        sample_consumer_keys sample_mouse_buttons sample_sections)

lemma sample_distinct_consumer:
  "distinct (map (attr (sample_env Ecodes)) CONSUMER_KEYS_names)"
proof -
  have "map (attr (sample_env Ecodes)) (map fst consumer_items)
          = map fst (map (entry sample_env) consumer_items)"
    by (simp add: fst_entry)
  moreover have "distinct (map fst sample_consumer_pairs)"
    by (simp add: sample_consumer_pairs_def)
  ultimately show ?thesis
    by (simp only: consumer_names sample_table)
qed

lemma sample_py_dir: "py_dir (sample_env c) = map fst (sample_members c)"
  by (simp add: sample_env_def namespace_of_def)

lemma sample_no_none: "no_none_attribute sample_env Keycode"
proof -
  have all: "list_all (\<lambda>(n, v). v \<noteq> PNone) (sample_members Keycode)"
    by (simp only: sample_members.simps list_all_append sample_Keycode_1_def
          sample_Keycode_2_def sample_Keycode_3_def sample_Keycode_4_def sample_Keycode_5_def
          list.pred_inject case_prod_conv pyval.distinct simp_thms)
  show ?thesis
    unfolding no_none_attribute_def
  proof
    fix a assume "a \<in> set (py_dir (sample_env Keycode))"
    then have "a \<in> fst ` set (sample_members Keycode)"
      by (simp only: sample_py_dir set_map)
    then obtain v where v: "map_of (sample_members Keycode) a = Some v"
      by (metis domD dom_map_of_conv_image_fst)
    then have "(a, v) \<in> set (sample_members Keycode)"
      by (rule map_of_SomeD)
    with all have "v \<noteq> PNone"
      by (auto simp: list_all_iff)
    with v show "py_getattr (sample_env Keycode) a \<noteq> PNone"
      by (simp add: sample_getattr)
  qed
qed

lemma sample_dir_Keycode: "\<exists>rest. py_dir (sample_env Keycode) = ''A'' # rest"
  by (simp add: sample_env_def namespace_of_def sample_Keycode_1_def)

lemma sample_dir_ecodes:
  "\<exists>rest. py_dir (sample_env Ecodes) = ''BTN'' # ''BTN_0'' # ''BTN_LEFT'' # rest"
  by (simp add: sample_env_def namespace_of_def sample_ecodes_1_def)

lemma startswith_BTN_LEFT: "startswith ''BTN_LEFT'' [''KEY_'', ''BTN_'']"
  by (simp add: startswith_def)

lemma sample_translate_A:
  "fst (evdev_to_hid sample_env \<lparr>scancode = 30, keystate = 1\<rparr> init_state) = (Some 4, Some ''A'')"
proof -
  obtain rest where "py_dir (sample_env Keycode) = ''A'' # rest"
    using sample_dir_Keycode by blast
  then show ?thesis
    by (simp add: evdev_to_hid_value(1) [OF cache_ok_init] sample_table_at sample_classes
          sample_getattrs)
qed

lemma sample_key_name_BTN_LEFT:
  "fst (find_key_name sample_env \<lparr>scancode = 272, keystate = 1\<rparr> init_state) = Some ''BTN_LEFT''"
proof -
  obtain rest where "py_dir (sample_env Ecodes) = ''BTN'' # ''BTN_0'' # ''BTN_LEFT'' # rest"
    using sample_dir_ecodes by blast
  then show ?thesis
    by (simp add: find_key_name_value(1) [OF cache_ok_init] sample_getattrs startswith_BTN_LEFT)
qed

text \<open>
  The keys of the table are read from \<^verbatim>\<open>ecodes\<close> alone, so the environment without the
  docstring has the keys of the sample; and the first attribute of its \<^verbatim>\<open>Keycode\<close> with the
  value \<^verbatim>\<open>None\<close> is \<^verbatim>\<open>__doc__\<close>.
\<close>

lemma dom_table_ecodes:
  assumes "env Ecodes = env' Ecodes"
  shows "dom (EVDEV_TO_HID env) = dom (EVDEV_TO_HID env')"
proof -
  have "map fst (map (entry env) EVDEV_TO_HID_items)
          = map fst (map (entry env') EVDEV_TO_HID_items)"
    using assms by (simp add: fst_entry)
  then have "fst ` set (map (entry env) EVDEV_TO_HID_items)
               = fst ` set (map (entry env') EVDEV_TO_HID_items)"
    by (simp only: set_map [symmetric])
  then show ?thesis
    by (simp only: EVDEV_TO_HID_def dom_dict_of)
qed

lemma find_after:
  "\<forall>x \<in> set xs. \<not> P x \<Longrightarrow> P y \<Longrightarrow> find P (xs @ y # ys) = Some y"
  by (induction xs) auto

lemma find_first_none:
  assumes "list_all (\<lambda>(n, v). v \<noteq> PNone) before"
    and "map_of before n = None"
  shows "find (\<lambda>a. py_getattr (namespace_of (before @ (n, PNone) # rest)) a = PNone)
           (py_dir (namespace_of (before @ (n, PNone) # rest))) = Some n"
proof -
  let ?ns = "namespace_of (before @ (n, PNone) # rest)"
  have "py_getattr ?ns a \<noteq> PNone" if "a \<in> set (map fst before)" for a
  proof -
    from that obtain v where v: "map_of before a = Some v"
      by (metis domD dom_map_of_conv_image_fst set_map)
    then have "(a, v) \<in> set before"
      by (rule map_of_SomeD)
    with assms(1) have "v \<noteq> PNone"
      by (auto simp: list_all_iff)
    with v show ?thesis
      by (simp add: namespace_of_def map_add_def)
  qed
  moreover have "py_getattr ?ns n = PNone"
    using assms(2) by (simp add: namespace_of_def map_add_def)
  moreover have "py_dir ?ns = map fst before @ n # map fst rest"
    by (simp add: namespace_of_def)
  ultimately show ?thesis
    by (simp add: find_after)
qed

lemma undocumented_find:
  "find (\<lambda>a. py_getattr (undocumented_env Keycode) a = PNone)
     (py_dir (undocumented_env Keycode)) = Some ''__doc__''"
proof -
  let ?before = "sample_Keycode_1 @ sample_Keycode_2 @ sample_Keycode_3 @ sample_Keycode_4 @
                   [(''__dict__'', PObj)]"
  let ?rest = "[(''__init__'', PObj), (''__module__'', PObj), (''modifier_bit'', PObj)]"
  have all: "list_all (\<lambda>(n, v). v \<noteq> PNone) ?before"
    by (simp only: list_all_append sample_Keycode_1_def
          sample_Keycode_2_def sample_Keycode_3_def sample_Keycode_4_def
          list.pred_inject case_prod_conv pyval.distinct simp_thms)
  have absent: "map_of ?before ''__doc__'' = None"
    by (simp only: sample_lookup
          cong: map_of_weak_cong str_eq_weak_cong if_weak_cong option.case_cong_weak)
  have "undocumented_Keycode = ?before @ (''__doc__'', PNone) # ?rest"
    by (simp add: undocumented_Keycode_def undocumented_Keycode_5_def)
  then show ?thesis
    using find_first_none [OF all absent, of ?rest] by (simp add: undocumented_env_def)
qed

lemma undocumented_unmapped: "248 \<notin> dom (EVDEV_TO_HID undocumented_env)"
proof -
  have "undocumented_env Ecodes = sample_env Ecodes"
    by (simp add: undocumented_env_def)
  then have "dom (EVDEV_TO_HID undocumented_env) = dom (EVDEV_TO_HID sample_env)"
    by (rule dom_table_ecodes)
  then show ?thesis
    by (simp add: domIff sample_table_at)
qed


section \<open>The claims\<close>

text \<open>
  Every function of the adapter is total in the model and returns a value: none of them has
  a branch that raises. The resolvers and the translator thread the state of the caches and
  of the log; the classifier and the motion decoder read the tables only. Where a theorem
  speaks of the state \<open>after_calls env calls\<close>, it holds after any history of calls, the
  empty one included.
\<close>

lemma find_SomeD: "find P xs = Some x \<Longrightarrow> P x \<and> x \<in> set xs"
  by (auto simp: find_Some_iff)

lemma startswith_KEY_BTN:
  "startswith n [''KEY_'', ''BTN_''] \<longleftrightarrow> take 4 n = ''KEY_'' \<or> take 4 n = ''BTN_''"
proof -
  have "length ''KEY_'' = 4" and "length ''BTN_'' = 4"
    by simp_all
  then show ?thesis
    by (simp only: startswith_def list_ex_Cons_iff list_ex_Nil_iff simp_thms)
qed

lemma dir_cache_cached_dir: "dir_cache (snd (cached_dir env t s)) \<noteq> []"
  by (simp add: cached_dir_def lru_cache_def split_beta Let_def split: option.splits)

lemma dir_cache_cached_getattr: "dir_cache (snd (cached_getattr env t a s)) = dir_cache s"
  by (simp add: cached_getattr_def split_beta)

lemma dir_cache_find_usage_name_loop:
  "dir_cache (snd (find_usage_name_loop env c u as s)) = dir_cache s"
  by (induction as arbitrary: s) (simp_all add: split_beta dir_cache_cached_getattr)

lemma dir_cache_evdev_to_hid: "dir_cache (snd (evdev_to_hid env ev s)) \<noteq> []"
  by (simp add: evdev_to_hid_def find_usage_name_def split_beta Let_def debug_def
        dir_cache_find_usage_name_loop dir_cache_cached_dir split: option.splits)

text \<open>
  \<^bold>\<open>C1.\<close> In the mapping table the scan codes of the power key and of the pause key each
  appear twice, first with a Keyboard usage id and later with a ConsumerControl usage id.
  The later entry replaces the earlier one: for these two scan codes the translator returns
  the ConsumerControl usage id, and the table is the table built without the two Keyboard
  entries, so no input reaches them. The usage id returned is stated for an environment in
  which the consumer keys have pairwise distinct scan codes.
\<close>

theorem power_pause_overwritten:
  assumes "distinct (map (attr (env Ecodes)) CONSUMER_KEYS_names)"
  shows
    "filter (\<lambda>(k, c, v). k = ''KEY_POWER'') EVDEV_TO_HID_items =
       [(''KEY_POWER'', Keycode, ''POWER''), (''KEY_POWER'', ConsumerControlCode, ''POWER'')]
     \<and> filter (\<lambda>(k, c, v). k = ''KEY_PAUSE'') EVDEV_TO_HID_items =
       [(''KEY_PAUSE'', Keycode, ''PAUSE''), (''KEY_PAUSE'', ConsumerControlCode, ''PAUSE'')]
     \<and> (scancode ev = attr (env Ecodes) ''KEY_POWER'' \<longrightarrow>
          fst (fst (evdev_to_hid env ev (after_calls env calls)))
            = Some (attr (env ConsumerControlCode) ''POWER''))
     \<and> (scancode ev = attr (env Ecodes) ''KEY_PAUSE'' \<longrightarrow>
          fst (fst (evdev_to_hid env ev (after_calls env calls)))
            = Some (attr (env ConsumerControlCode) ''PAUSE''))
     \<and> EVDEV_TO_HID env =
          dict_of (map (entry env)
            (filter (\<lambda>(k, c, v). \<not> (c = Keycode \<and> (k = ''KEY_POWER'' \<or> k = ''KEY_PAUSE'')))
               EVDEV_TO_HID_items))"
proof -
  have id: "fst (fst (evdev_to_hid env ev (after_calls env calls))) = EVDEV_TO_HID env (scancode ev)"
    using evdev_to_hid_value(1) [OF cache_ok_after_calls, of env ev calls] by simp
  have power: "EVDEV_TO_HID env (attr (env Ecodes) ''KEY_POWER'')
                 = Some (attr (env ConsumerControlCode) ''POWER'')"
    using assms power_consumer by (rule consumer_item_lookup)
  have pause: "EVDEV_TO_HID env (attr (env Ecodes) ''KEY_PAUSE'')
                 = Some (attr (env ConsumerControlCode) ''PAUSE'')"
    using assms pause_consumer by (rule consumer_item_lookup)
  show ?thesis
    using power pause
    by (simp only: power_entries pause_entries id table_without_shadowed [symmetric]) simp
qed

theorem power_pause_overwritten_witness:
  "distinct (map (attr (sample_env Ecodes)) CONSUMER_KEYS_names)
   \<and> attr (sample_env Ecodes) ''KEY_POWER'' = 116
   \<and> fst (fst (evdev_to_hid sample_env \<lparr>scancode = 116, keystate = 1\<rparr> init_state)) = Some 48
   \<and> attr (sample_env Ecodes) ''KEY_PAUSE'' = 119
   \<and> fst (fst (evdev_to_hid sample_env \<lparr>scancode = 119, keystate = 1\<rparr> init_state)) = Some 177"
  using power_pause_overwritten [of sample_env "\<lparr>scancode = 116, keystate = 1\<rparr>" "[]",
      OF sample_distinct_consumer]
    power_pause_overwritten [of sample_env "\<lparr>scancode = 119, keystate = 1\<rparr>" "[]",
      OF sample_distinct_consumer]
  by (simp add: sample_attrs sample_distinct_consumer after_calls_Nil)

text \<open>
  \<^bold>\<open>C2.\<close> For every scan code that is a key of the mapping table, the translator returns the
  table's value as the usage id, together with a usage name: a name that \<^verbatim>\<open>dir\<close> lists for
  the class the scan code classifies to and whose value in that class is the usage id.
  Stated for an environment in which reflection agrees with the constants of the table.
\<close>

theorem translate_mapped:
  assumes "reflects env"
    and "EVDEV_TO_HID env (scancode ev) = Some u"
  shows "\<exists>n. fst (evdev_to_hid env ev (after_calls env calls)) = (Some u, Some n)
           \<and> n \<in> set (py_dir (env (get_hid_code_type env ev)))
           \<and> py_getattr (env (get_hid_code_type env ev)) n = PInt u"
proof -
  let ?c = "get_hid_code_type env ev"
  from winning_entry [OF assms(2)] obtain k v
    where "(k, ?c, v) \<in> set EVDEV_TO_HID_items" and "attr (env ?c) v = u"
    by blast
  with assms(1) have "v \<in> set (py_dir (env ?c))" and "py_getattr (env ?c) v = PInt u"
    by (auto simp: reflects_def)
  then have "py_eq (py_getattr (env ?c) v) (Some u)"
    by simp
  with \<open>v \<in> set (py_dir (env ?c))\<close>
  obtain n where "find (\<lambda>a. py_eq (py_getattr (env ?c) a) (Some u)) (py_dir (env ?c)) = Some n"
    and "n \<in> set (py_dir (env ?c))" and "py_eq (py_getattr (env ?c) n) (Some u)"
    using find_first [of v "py_dir (env ?c)" "\<lambda>a. py_eq (py_getattr (env ?c) a) (Some u)"]
    by blast
  then show ?thesis
    using evdev_to_hid_value(1) [OF cache_ok_after_calls, of env ev calls] assms(2)
    by (simp add: py_eq_Some)
qed

theorem translate_mapped_witness:
  "reflects sample_env
   \<and> EVDEV_TO_HID sample_env 30 = Some 4
   \<and> get_hid_code_type sample_env \<lparr>scancode = 30, keystate = 1\<rparr> = Keycode
   \<and> fst (evdev_to_hid sample_env \<lparr>scancode = 30, keystate = 1\<rparr> init_state) = (Some 4, Some ''A'')
   \<and> ''A'' \<in> set (py_dir (sample_env Keycode))
   \<and> py_getattr (sample_env Keycode) ''A'' = PInt 4"
  using translate_mapped [of sample_env "\<lparr>scancode = 30, keystate = 1\<rparr>" 4 "[]",
      OF sample_reflects]
  by (simp add: sample_table_at sample_classes sample_reflects sample_translate_A after_calls_Nil)

text \<open>
  What the translator does with a scan code that is not a key of the mapping table, after
  any history of calls: it has no failing branch, the usage id is \<^verbatim>\<open>None\<close>, the scan code is
  logged as unsupported, and the name is whatever \<^verbatim>\<open>find_usage_name\<close> finds for the usage id
  \<^verbatim>\<open>None\<close>, because the translator calls the resolver before it tests the id. The scan code
  classifies as \<^verbatim>\<open>Keycode\<close>, so the name is the first attribute \<^verbatim>\<open>dir\<close> lists for \<^verbatim>\<open>Keycode\<close>
  whose value equals \<^verbatim>\<open>None\<close>. The result is \<open>(None, None)\<close> exactly when there is no such
  attribute.
\<close>

lemma unmapped_result:
  assumes "scancode ev \<notin> dom (EVDEV_TO_HID env)"
  shows "fst (evdev_to_hid env ev (after_calls env calls))
           = (None, find (\<lambda>a. py_getattr (env Keycode) a = PNone) (py_dir (env Keycode)))"
    and "log (snd (evdev_to_hid env ev (after_calls env calls)))
           = Unsupported (scancode ev) # log (after_calls env calls)"
proof -
  let ?s = "after_calls env calls"
  from assms have none: "EVDEV_TO_HID env (scancode ev) = None"
    by (simp add: domIff)
  from assms have "scancode ev \<notin> CONSUMER_KEYS env" and "scancode ev \<notin> MOUSE_BUTTONS env"
    by (simp_all add: dom_table)
  then have c: "get_hid_code_type env ev = Keycode"
    by (simp add: get_hid_code_type_def is_consumer_key_def is_mouse_button_def)
  show "fst (evdev_to_hid env ev ?s)
          = (None, find (\<lambda>a. py_getattr (env Keycode) a = PNone) (py_dir (env Keycode)))"
    using evdev_to_hid_value(1) [OF cache_ok_after_calls, of env ev calls] none c
    by (simp add: py_eq_None)
  show "log (snd (evdev_to_hid env ev ?s)) = Unsupported (scancode ev) # log ?s"
    by (simp add: evdev_to_hid_def none split_beta Let_def debug_def
          log_find_key_name log_find_usage_name)
qed

lemma unmapped_none_iff:
  assumes "scancode ev \<notin> dom (EVDEV_TO_HID env)"
  shows "fst (evdev_to_hid env ev (after_calls env calls)) = (None, None)
           \<longleftrightarrow> no_none_attribute env Keycode"
  by (auto simp: unmapped_result(1) [OF assms] find_None_iff no_none_attribute_def)

lemma sample_unmapped:
  "fst (evdev_to_hid sample_env \<lparr>scancode = 248, keystate = 1\<rparr> init_state) = (None, None)"
  using unmapped_none_iff [of "\<lparr>scancode = 248, keystate = 1\<rparr>" sample_env "[]"]
  by (simp add: domIff sample_table_at sample_no_none after_calls_Nil)

text \<open>
  \<^bold>\<open>C3.\<close> The translator does not return \<open>(None, None)\<close> for every scan code that is not a
  key of the mapping table. \<^verbatim>\<open>evdev_to_hid\<close> calls \<^verbatim>\<open>find_usage_name(event, None)\<close> before its
  test \<^verbatim>\<open>hid_usage_id is None\<close>, and the resolver, whose parameter is annotated \<^verbatim>\<open>int\<close>,
  compares every attribute of \<^verbatim>\<open>Keycode\<close> with \<^verbatim>\<open>None\<close>. With a \<^verbatim>\<open>Keycode\<close> class that has no
  docstring, the attribute \<^verbatim>\<open>__doc__\<close> is \<^verbatim>\<open>None\<close>, and for the scan code 248
  (\<^verbatim>\<open>KEY_MICMUTE\<close>), which is not a key of the table, the translator returns
  \<open>(None, '__doc__')\<close> from the cold state. It does not fail, and it logs the scan code as
  unsupported.
\<close>

theorem translate_unmapped_names_attribute:
  "248 \<notin> dom (EVDEV_TO_HID undocumented_env)
   \<and> py_getattr (undocumented_env Keycode) ''__doc__'' = PNone
   \<and> fst (evdev_to_hid undocumented_env \<lparr>scancode = 248, keystate = 1\<rparr> init_state)
       = (None, Some ''__doc__'')
   \<and> fst (evdev_to_hid undocumented_env \<lparr>scancode = 248, keystate = 1\<rparr> init_state)
       \<noteq> (None, None)
   \<and> log (snd (evdev_to_hid undocumented_env \<lparr>scancode = 248, keystate = 1\<rparr> init_state))
       = [Unsupported 248]"
proof -
  let ?ev = "\<lparr>scancode = 248, keystate = 1\<rparr>"
  have "fst (evdev_to_hid undocumented_env ?ev init_state) = (None, Some ''__doc__'')"
    using unmapped_result(1) [of ?ev undocumented_env "[]"]
    by (simp add: undocumented_unmapped undocumented_find after_calls_Nil)
  moreover have "log (snd (evdev_to_hid undocumented_env ?ev init_state)) = [Unsupported 248]"
    using unmapped_result(2) [of ?ev undocumented_env "[]"]
    by (simp add: undocumented_unmapped after_calls_Nil init_state_def)
  moreover have "py_getattr (undocumented_env Keycode) ''__doc__'' = PNone"
    using undocumented_find by (auto dest: find_SomeD)
  ultimately show ?thesis
    by (simp add: undocumented_unmapped)
qed

text \<open>
  \<^bold>\<open>C4.\<close> The classifier is total and follows the priority: for every scan code it returns
  one of the three usage classes; a member of the consumer set classifies as
  ConsumerControl, a member of the mouse set that is not in the consumer set as
  MouseButton, any other scan code as Keyboard. In particular a scan code in both sets
  classifies as ConsumerControl.
\<close>

theorem classify_total_priority:
  "get_hid_code_type env ev \<in> {Keycode, ConsumerControlCode, MouseButton}
   \<and> (scancode ev \<in> CONSUMER_KEYS env \<longrightarrow> get_hid_code_type env ev = ConsumerControlCode)
   \<and> (scancode ev \<notin> CONSUMER_KEYS env \<and> scancode ev \<in> MOUSE_BUTTONS env \<longrightarrow>
        get_hid_code_type env ev = MouseButton)
   \<and> (scancode ev \<notin> CONSUMER_KEYS env \<and> scancode ev \<notin> MOUSE_BUTTONS env \<longrightarrow>
        get_hid_code_type env ev = Keycode)
   \<and> (scancode ev \<in> CONSUMER_KEYS env \<inter> MOUSE_BUTTONS env \<longrightarrow>
        get_hid_code_type env ev = ConsumerControlCode)"
  by (simp add: get_hid_code_type_def is_consumer_key_def is_mouse_button_def)

theorem classify_total_priority_witness:
  "7 \<in> CONSUMER_KEYS overlap_env \<inter> MOUSE_BUTTONS overlap_env
   \<and> get_hid_code_type overlap_env \<lparr>scancode = 7, keystate = 1\<rparr> = ConsumerControlCode
   \<and> 115 \<in> CONSUMER_KEYS sample_env
   \<and> get_hid_code_type sample_env \<lparr>scancode = 115, keystate = 1\<rparr> = ConsumerControlCode
   \<and> 272 \<notin> CONSUMER_KEYS sample_env \<and> 272 \<in> MOUSE_BUTTONS sample_env
   \<and> get_hid_code_type sample_env \<lparr>scancode = 272, keystate = 1\<rparr> = MouseButton
   \<and> 30 \<notin> CONSUMER_KEYS sample_env \<and> 30 \<notin> MOUSE_BUTTONS sample_env
   \<and> get_hid_code_type sample_env \<lparr>scancode = 30, keystate = 1\<rparr> = Keycode"
proof -
  have "''KEY_POWER'' \<in> set CONSUMER_KEYS_names" and "''BTN_LEFT'' \<in> set MOUSE_BUTTONS_names"
    by (simp_all add: CONSUMER_KEYS_names_def MOUSE_BUTTONS_names_def)
  then have "7 \<in> CONSUMER_KEYS overlap_env" and "7 \<in> MOUSE_BUTTONS overlap_env"
    by (auto simp: CONSUMER_KEYS_def MOUSE_BUTTONS_def overlap_env_def)
  then show ?thesis
    using classify_total_priority [of overlap_env "\<lparr>scancode = 7, keystate = 1\<rparr>"]
      classify_total_priority [of sample_env "\<lparr>scancode = 115, keystate = 1\<rparr>"]
      classify_total_priority [of sample_env "\<lparr>scancode = 272, keystate = 1\<rparr>"]
      classify_total_priority [of sample_env "\<lparr>scancode = 30, keystate = 1\<rparr>"]
    by (simp add: sample_consumer_keys sample_mouse_buttons sample_sections)
qed

text \<open>
  \<^bold>\<open>C5.\<close> The motion decoder dispatches on the axis: a horizontal-axis event with value \<open>v\<close>
  yields \<open>(v, 0, 0)\<close>, a vertical-axis event \<open>(0, v, 0)\<close>, a wheel event \<open>(0, 0, v)\<close>,
  and an event on any other axis \<open>(0, 0, 0)\<close>. Stated for an environment in which the three
  axis codes are distinct.
\<close>

theorem mouse_movement_dispatch:
  assumes "distinct [attr (env Ecodes) ''REL_X'', attr (env Ecodes) ''REL_Y'',
                     attr (env Ecodes) ''REL_WHEEL'']"
  shows "(code (event ev) = attr (env Ecodes) ''REL_X'' \<longrightarrow>
            get_mouse_movement env ev = (ev_value (event ev), 0, 0))
       \<and> (code (event ev) = attr (env Ecodes) ''REL_Y'' \<longrightarrow>
            get_mouse_movement env ev = (0, ev_value (event ev), 0))
       \<and> (code (event ev) = attr (env Ecodes) ''REL_WHEEL'' \<longrightarrow>
            get_mouse_movement env ev = (0, 0, ev_value (event ev)))
       \<and> (code (event ev) \<notin> {attr (env Ecodes) ''REL_X'', attr (env Ecodes) ''REL_Y'',
                                attr (env Ecodes) ''REL_WHEEL''} \<longrightarrow>
            get_mouse_movement env ev = (0, 0, 0))"
  using assms by (auto simp: get_mouse_movement_def Let_def)

theorem mouse_movement_dispatch_witness:
  "distinct [attr (sample_env Ecodes) ''REL_X'', attr (sample_env Ecodes) ''REL_Y'',
             attr (sample_env Ecodes) ''REL_WHEEL'']
   \<and> get_mouse_movement sample_env \<lparr>event = \<lparr>code = 0, ev_value = - 5\<rparr>\<rparr> = (- 5, 0, 0)
   \<and> get_mouse_movement sample_env \<lparr>event = \<lparr>code = 1, ev_value = 3\<rparr>\<rparr> = (0, 3, 0)
   \<and> get_mouse_movement sample_env \<lparr>event = \<lparr>code = 8, ev_value = 1\<rparr>\<rparr> = (0, 0, 1)
   \<and> get_mouse_movement sample_env \<lparr>event = \<lparr>code = 6, ev_value = 1\<rparr>\<rparr> = (0, 0, 0)"
proof -
  have d: "distinct [attr (sample_env Ecodes) ''REL_X'', attr (sample_env Ecodes) ''REL_Y'',
                     attr (sample_env Ecodes) ''REL_WHEEL'']"
    by (simp add: sample_attrs)
  show ?thesis
    using mouse_movement_dispatch [of sample_env "\<lparr>event = \<lparr>code = 0, ev_value = - 5\<rparr>\<rparr>", OF d]
      mouse_movement_dispatch [of sample_env "\<lparr>event = \<lparr>code = 1, ev_value = 3\<rparr>\<rparr>", OF d]
      mouse_movement_dispatch [of sample_env "\<lparr>event = \<lparr>code = 8, ev_value = 1\<rparr>\<rparr>", OF d]
      mouse_movement_dispatch [of sample_env "\<lparr>event = \<lparr>code = 6, ev_value = 1\<rparr>\<rparr>", OF d]
    by (simp add: sample_attrs)
qed

text \<open>
  \<^bold>\<open>C6.\<close> The claim that every decoded relative-axis event has exactly one non-zero field
  fails: an event on an axis the decoder does not model (here the horizontal wheel, axis 6
  of the sample environment) decodes to three zeros, and so does an event of value 0.
\<close>

theorem mouse_movement_counterexample:
  "nonzero_fields (get_mouse_movement sample_env \<lparr>event = \<lparr>code = 6, ev_value = 1\<rparr>\<rparr>) = 0
   \<and> nonzero_fields (get_mouse_movement sample_env \<lparr>event = \<lparr>code = 0, ev_value = 0\<rparr>\<rparr>) = 0"
  by (simp add: get_mouse_movement_def nonzero_fields_def sample_attrs)

text \<open>
  \<^bold>\<open>C6, as amended.\<close> At most one field of a decoded motion sample is non-zero, and exactly
  one is non-zero precisely when the event's value is non-zero and its axis is the
  horizontal axis, the vertical axis or the wheel.
\<close>

theorem mouse_movement_at_most_one:
  "nonzero_fields (get_mouse_movement env ev) \<le> 1
   \<and> (nonzero_fields (get_mouse_movement env ev) = 1 \<longleftrightarrow>
        ev_value (event ev) \<noteq> 0
        \<and> code (event ev) \<in> {attr (env Ecodes) ''REL_X'', attr (env Ecodes) ''REL_Y'',
                                attr (env Ecodes) ''REL_WHEEL''})"
  by (auto simp: get_mouse_movement_def nonzero_fields_def Let_def)

theorem mouse_movement_at_most_one_witness:
  "nonzero_fields (get_mouse_movement sample_env \<lparr>event = \<lparr>code = 1, ev_value = 3\<rparr>\<rparr>) = 1
   \<and> nonzero_fields (get_mouse_movement sample_env \<lparr>event = \<lparr>code = 6, ev_value = 1\<rparr>\<rparr>) \<le> 1"
  using mouse_movement_at_most_one [of sample_env "\<lparr>event = \<lparr>code = 1, ev_value = 3\<rparr>\<rparr>"]
    mouse_movement_at_most_one [of sample_env "\<lparr>event = \<lparr>code = 6, ev_value = 1\<rparr>\<rparr>"]
  by (simp add: sample_attrs)

text \<open>
  \<^bold>\<open>C7.\<close> Translation and name resolution do not depend on the state of the caches: after
  any history of calls, however warm the caches, the translator and both resolvers return
  what they return from the cold state.
\<close>

theorem results_independent_of_cache:
  "fst (evdev_to_hid env ev (after_calls env calls)) = fst (evdev_to_hid env ev init_state)
   \<and> fst (find_key_name env ev (after_calls env calls)) = fst (find_key_name env ev init_state)
   \<and> fst (find_usage_name env ev hid_usage_id (after_calls env calls))
       = fst (find_usage_name env ev hid_usage_id init_state)"
  by (simp only: evdev_to_hid_value(1) [OF cache_ok_after_calls]
        evdev_to_hid_value(1) [OF cache_ok_init]
        find_key_name_value(1) [OF cache_ok_after_calls] find_key_name_value(1) [OF cache_ok_init]
        find_usage_name_value(1) [OF cache_ok_after_calls]
        find_usage_name_value(1) [OF cache_ok_init] simp_thms)

theorem results_independent_of_cache_witness:
  "after_calls sample_env [Call_evdev_to_hid \<lparr>scancode = 30, keystate = 1\<rparr>]
     = snd (evdev_to_hid sample_env \<lparr>scancode = 30, keystate = 1\<rparr> init_state)
   \<and> dir_cache (snd (evdev_to_hid sample_env \<lparr>scancode = 30, keystate = 1\<rparr> init_state)) \<noteq> []
   \<and> dir_cache init_state = []
   \<and> fst (evdev_to_hid sample_env \<lparr>scancode = 30, keystate = 1\<rparr>
          (snd (evdev_to_hid sample_env \<lparr>scancode = 30, keystate = 1\<rparr> init_state)))
       = (Some 4, Some ''A'')
   \<and> fst (evdev_to_hid sample_env \<lparr>scancode = 30, keystate = 1\<rparr> init_state) = (Some 4, Some ''A'')"
proof -
  have a: "after_calls sample_env [Call_evdev_to_hid \<lparr>scancode = 30, keystate = 1\<rparr>]
             = snd (evdev_to_hid sample_env \<lparr>scancode = 30, keystate = 1\<rparr> init_state)"
    by (simp add: after_calls_def)
  have "dir_cache init_state = []"
    by (simp add: init_state_def)
  then show ?thesis
    using results_independent_of_cache [of sample_env "\<lparr>scancode = 30, keystate = 1\<rparr>"
        "[Call_evdev_to_hid \<lparr>scancode = 30, keystate = 1\<rparr>]"]
    by (simp add: a sample_translate_A dir_cache_evdev_to_hid)
qed

text \<open>
  \<^bold>\<open>C8.\<close> The translator does not consult the direction of the event: two key events with
  the same scan code get the same result, and leave the same state, whatever their
  directions.
\<close>

theorem direction_not_consulted:
  assumes "scancode e1 = scancode e2"
  shows "evdev_to_hid env e1 s = evdev_to_hid env e2 s"
  using assms
  by (simp add: evdev_to_hid_def find_key_name_def find_usage_name_def get_hid_code_type_def
        is_consumer_key_def is_mouse_button_def)

theorem direction_not_consulted_witness:
  "scancode \<lparr>scancode = 30, keystate = 1\<rparr> = scancode \<lparr>scancode = 30, keystate = 0\<rparr>
   \<and> keystate \<lparr>scancode = 30, keystate = 1\<rparr> \<noteq> keystate \<lparr>scancode = 30, keystate = 0\<rparr>
   \<and> evdev_to_hid sample_env \<lparr>scancode = 30, keystate = 1\<rparr> init_state
       = evdev_to_hid sample_env \<lparr>scancode = 30, keystate = 0\<rparr> init_state"
  using direction_not_consulted [of "\<lparr>scancode = 30, keystate = 1\<rparr>"
      "\<lparr>scancode = 30, keystate = 0\<rparr>" sample_env init_state]
  by simp

text \<open>
  \<^bold>\<open>C9.\<close> Every scan code of the consumer set or of the mouse set is a key of the mapping
  table, so the translator returns no usage id only for scan codes that classify as
  Keyboard.
\<close>

theorem classified_codes_in_table:
  "(sc \<in> CONSUMER_KEYS env \<union> MOUSE_BUTTONS env \<longrightarrow> sc \<in> dom (EVDEV_TO_HID env))
   \<and> (fst (fst (evdev_to_hid env ev s)) = None \<longrightarrow> get_hid_code_type env ev = Keycode)"
proof -
  have id: "fst (fst (evdev_to_hid env ev s)) = EVDEV_TO_HID env (scancode ev)"
    by (simp add: evdev_to_hid_def split_beta Let_def)
  have "EVDEV_TO_HID env (scancode ev) = None \<Longrightarrow> get_hid_code_type env ev = Keycode"
  proof -
    assume "EVDEV_TO_HID env (scancode ev) = None"
    then have "scancode ev \<notin> dom (EVDEV_TO_HID env)"
      by (simp add: domIff)
    then show ?thesis
      by (simp add: dom_table get_hid_code_type_def is_consumer_key_def is_mouse_button_def)
  qed
  then show ?thesis
    by (auto simp: id dom_table)
qed

theorem classified_codes_in_table_witness:
  "272 \<in> CONSUMER_KEYS sample_env \<union> MOUSE_BUTTONS sample_env
   \<and> 272 \<in> dom (EVDEV_TO_HID sample_env)
   \<and> fst (fst (evdev_to_hid sample_env \<lparr>scancode = 248, keystate = 1\<rparr> init_state)) = None
   \<and> get_hid_code_type sample_env \<lparr>scancode = 248, keystate = 1\<rparr> = Keycode"
proof -
  have "fst (fst (evdev_to_hid sample_env \<lparr>scancode = 248, keystate = 1\<rparr> init_state)) = None"
    by (simp add: evdev_to_hid_value(1) [OF cache_ok_init] sample_table_at)
  then show ?thesis
    using classified_codes_in_table [of 272 sample_env "\<lparr>scancode = 248, keystate = 1\<rparr>" init_state]
    by (simp add: sample_mouse_buttons sample_sections)
qed

text \<open>
  \<^bold>\<open>C10.\<close> The key-name resolver returns either nothing or a name that starts with
  \<^verbatim>\<open>KEY_\<close> or \<^verbatim>\<open>BTN_\<close>, that \<^verbatim>\<open>dir\<close> lists for the scan-code namespace, and whose value
  there equals the event's scan code.
\<close>

theorem find_key_name_sound:
  assumes "fst (find_key_name env ev (after_calls env calls)) = Some n"
  shows "(take 4 n = ''KEY_'' \<or> take 4 n = ''BTN_'')
       \<and> py_getattr (env Ecodes) n = PInt (scancode ev)
       \<and> n \<in> set (py_dir (env Ecodes))"
proof -
  from assms have
    "find (\<lambda>a. py_eq (py_getattr (env Ecodes) a) (Some (scancode ev))
              \<and> startswith a [''KEY_'', ''BTN_'']) (py_dir (env Ecodes)) = Some n"
    by (simp add: find_key_name_value(1) [OF cache_ok_after_calls])
  then have "py_eq (py_getattr (env Ecodes) n) (Some (scancode ev))"
    and "startswith n [''KEY_'', ''BTN_'']" and "n \<in> set (py_dir (env Ecodes))"
    by (auto dest: find_SomeD)
  then show ?thesis
    by (simp add: py_eq_Some startswith_KEY_BTN)
qed

theorem find_key_name_sound_witness:
  "fst (find_key_name sample_env \<lparr>scancode = 272, keystate = 1\<rparr> init_state) = Some ''BTN_LEFT''
   \<and> take 4 ''BTN_LEFT'' = ''BTN_''
   \<and> py_getattr (sample_env Ecodes) ''BTN_LEFT'' = PInt 272
   \<and> ''BTN_LEFT'' \<in> set (py_dir (sample_env Ecodes))"
  using find_key_name_sound [of sample_env "\<lparr>scancode = 272, keystate = 1\<rparr>" "[]" "''BTN_LEFT''"]
  by (simp add: sample_key_name_BTN_LEFT after_calls_Nil)

end
